theory Spec2Isabelle
  imports Main "HOL-Library.Sublist"
begin

section \<open>Strings as the source uses them\<close>

text \<open>
  License keys, schema names, paths and connection URIs are Python \<open>str\<close> values; they
  are modelled as \<open>string\<close> (lists of 8-bit characters), which is exact for the ASCII
  keys the system issues. \<open>str.lower()\<close> is modelled on the ASCII letters.
\<close>

definition lower_char :: "char \<Rightarrow> char" where
  "lower_char c =
     (let n = (of_char c :: nat) in if 65 \<le> n \<and> n \<le> 90 then char_of (n + 32) else c)"

definition str_lower :: "string \<Rightarrow> string" where
  "str_lower s = map lower_char s"

text \<open>\<open>s.replace('-', '_')\<close>: every hyphen becomes an underscore.\<close>

definition replace_dash :: "string \<Rightarrow> string" where
  "replace_dash s = map (\<lambda>c. if c = CHR ''-'' then CHR ''_'' else c) s"

text \<open>\<open>needle in hay\<close> on strings: \<open>needle\<close> occurs as a contiguous run of \<open>hay\<close>.\<close>

fun str_in :: "string \<Rightarrow> string \<Rightarrow> bool" where
  "str_in needle [] = (needle = [])"
| "str_in needle (c # cs) = (prefix needle (c # cs) \<or> str_in needle cs)"

text \<open>\<open>os.path.join(a, b)\<close> on POSIX, for two components.\<close>

definition os_path_join :: "string \<Rightarrow> string \<Rightarrow> string" where
  "os_path_join a b =
     (case b of
        [] \<Rightarrow> (if a = [] \<or> last a = CHR ''/'' then a else a @ ''/'')
      | c # _ \<Rightarrow>
          if c = CHR ''/'' then b
          else if a = [] \<or> last a = CHR ''/'' then a @ b
          else a @ ''/'' @ b)"

section \<open>TenantManager: the store locator\<close>

text \<open>
  \<open>_is_postgres(app)\<close> (tenant\_manager.py, lines 11-17), which every caller gives the
  application, reads the connection URI of the application configuration each time it
  is called; the function below is its test on that URI.
\<close>

definition uri_is_postgres :: "string \<Rightarrow> bool" where
  "uri_is_postgres uri = (str_in ''postgresql'' uri \<or> str_in ''postgres'' uri)"

definition MASTER_DB :: string where
  "MASTER_DB = ''licenses_master.db''"

definition TENANTS_DIR :: string where
  "TENANTS_DIR = ''tenant_databases''"

text \<open>\<open>TenantManager._schema_name\<close> (line 33).\<close>

definition schema_name :: "string \<Rightarrow> string" where
  "schema_name license_key = ''tenant_'' @ str_lower (replace_dash license_key)"

text \<open>
  \<open>basedir\<close> is \<open>os.path.abspath(os.path.dirname(os.path.dirname(__file__)))\<close>, the
  directory the application is installed in; it is a parameter of the model.
  \<open>get_tenants_dir\<close> also creates the directory when it is missing; the model keeps
  database files by their path and has no directories.
\<close>

definition get_master_db_path :: "string \<Rightarrow> string" where
  "get_master_db_path basedir = os_path_join basedir MASTER_DB"

definition get_tenants_dir :: "string \<Rightarrow> string" where
  "get_tenants_dir basedir = os_path_join basedir TENANTS_DIR"

definition get_tenant_db_path :: "string \<Rightarrow> string \<Rightarrow> string" where
  "get_tenant_db_path basedir license_key =
     (let safe_key = replace_dash license_key
      in os_path_join (get_tenants_dir basedir) (''tenant_'' @ safe_key @ ''.db''))"

text \<open>
  The normal form of a tenant identifier: separators unified and case folded. Two
  identifiers are equivalent when their normal forms agree.
\<close>

definition normalize_id :: "string \<Rightarrow> string" where
  "normalize_id license_key = str_lower (replace_dash license_key)"

section \<open>Data model\<close>

text \<open>
  Modelled from the spec: the \<open>License\<close> record of the master registry
  (\<open>app.models_license\<close> is not among the sources). The fields are the ones the
  sources read; nullable text columns are \<open>string option\<close>, timestamps are seconds
  as \<open>int\<close>, \<open>expires_at = None\<close> means a perpetual license, and the two flags are
  not nullable.
\<close>

record license =
  lic_id :: nat
  lic_license_key :: string
  lic_client_name :: "string option"
  lic_client_email :: "string option"
  lic_client_company :: "string option"
  lic_client_phone :: "string option"
  lic_license_type :: "string option"
  lic_expires_at :: "int option"
  lic_is_active :: bool
  lic_is_suspended :: bool
  lic_suspension_reason :: "string option"
  lic_admin_username :: "string option"
  lic_admin_password_hash :: "string option"

text \<open>
  Modelled from the spec: the rows of a tenant store (\<open>app.models\<close> and
  \<open>app.models_accounting\<close> are not among the sources). The fields are those the
  seeding code fills in; the Arabic display names (\<open>name_ar\<close>, \<open>name\<close>) are left
  out, since no decision depends on them.
\<close>

record role =
  role_id :: nat
  role_name :: string
  role_description :: string

record branch =
  branch_id :: nat
  branch_code :: string
  branch_name_en :: string
  branch_is_active :: bool

record user =
  user_id :: nat
  user_username :: string
  user_email :: string
  user_full_name :: "string option"
  user_phone :: "string option"
  user_is_active :: bool
  user_is_admin :: bool
  user_role_id :: nat
  user_branch_id :: nat
  user_password_hash :: string
  user_last_login :: "int option"

record account =
  account_id :: nat
  account_code :: string
  account_name_en :: string
  account_type :: string
  account_is_system :: bool

text \<open>
  A tenant store: a PostgreSQL schema or a SQLite database file. \<open>has_tables\<close> is
  false for a store that exists without the tables of the schema bundle.
\<close>

record store =
  has_tables :: bool
  roles :: "role list"
  branches :: "branch list"
  users :: "user list"
  accounts :: "account list"

definition no_tables :: store where
  "no_tables = \<lparr>has_tables = False, roles = [], branches = [], users = [], accounts = []\<rparr>"

text \<open>\<open>db.create_all()\<close> / \<open>db.metadata.create_all(engine)\<close>: missing tables are created, existing ones are kept.\<close>

definition create_all :: "store \<Rightarrow> store" where
  "create_all st = st\<lparr>has_tables := True\<rparr>"

text \<open>
  Every statement that talks to storage can raise. A \<open>site\<close> names such a statement by
  its source file and line (\<open>TM\<close>: tenant\_manager.py, \<open>LG\<close>: multi\_tenant\_login.py,
  \<open>MW\<close>: tenant\_middleware.py; \<open>TM_iter l i\<close> is line \<open>l\<close> in iteration \<open>i\<close> of the loop
  around it). The environment decides which sites raise. A statement that raises leaves
  the stores as they were.
\<close>

datatype site = TM nat | TM_iter nat nat | LG nat | MW nat

datatype exn = Raised site | NoSuchTable

datatype ('r, 'a) outcome = Raise exn | Return 'r | Next 'a

text \<open>The calls of \<open>TenantManager\<close> functions, logged in the order they are made.\<close>

datatype call =
    Call_create_tenant_database string
  | Call_initialize_tenant_data string
  | Call_switch_schema string
  | Call_rollback

datatype flash = Flash_no_tenant | Flash_license_inactive | Flash_license_expired

text \<open>The snapshot the middleware publishes in \<open>g.license_data\<close> (tenant\_middleware.py, lines 84-93).\<close>

record license_data =
  ld_id :: nat
  ld_license_key :: string
  ld_client_name :: "string option"
  ld_client_email :: "string option"
  ld_license_type :: "string option"
  ld_expires_at :: "int option"
  ld_is_active :: bool
  ld_is_suspended :: bool

text \<open>
  What a call reads and does not change: the install directory, which storage
  statements raise, the clock (\<open>utcnow l\<close> is what \<open>datetime.utcnow()\<close> returns at
  site \<open>l\<close>), the password check of the \<open>User\<close> model (opaque), whether a
  request context is active (the Flask \<open>session\<close> raises \<open>RuntimeError\<close> outside one),
  the request path and whether \<open>current_user\<close> is authenticated.
\<close>

record env =
  basedir :: string
  raises :: "site \<Rightarrow> bool"
  utcnow :: "site \<Rightarrow> int"
  check_password :: "user \<Rightarrow> string \<Rightarrow> bool"
  in_request :: bool
  request_path :: string
  is_authenticated :: bool

text \<open>
  The state the three modules share: the connection URI of the application
  configuration; the URI the engine of the shared \<open>db.session\<close> was created from when
  the application was set up (no function of the three modules changes it: rewriting
  \<open>SQLALCHEMY_DATABASE_URI\<close> and disposing the engine releases its connections and
  leaves the session on the same database); the \<open>search_path\<close> in force in the
  transaction of the shared session, and the one its connection returns to when that
  transaction is rolled back; the master registry (license keys are unique there), the
  tenant schemas and the tenant database files by name, the tenant key of the Flask
  session, the request globals and the messages flashed.
\<close>

record world =
  config_uri :: string
  engine_uri :: string
  search_path :: "string list"
  committed_search_path :: "string list"
  licenses :: "string \<rightharpoonup> license"
  schemas :: "string \<rightharpoonup> store"
  files :: "string \<rightharpoonup> store"
  session_tenant_license_key :: "string option"
  g_tenant_license_key :: "string option"
  g_license_data :: "license_data option"
  flashed :: "flash list"
  calls :: "call list"

definition is_postgres :: "world \<Rightarrow> bool" where
  "is_postgres s = uri_is_postgres (config_uri s)"

text \<open>
  \<open>db.session.commit()\<close> makes the \<open>search_path\<close> of the transaction the one of the
  connection; \<open>rollback()\<close> returns to the one last committed. Leaving a
  \<open>with app.app_context()\<close> block, by its end, a \<open>return\<close> or an exception, removes
  the session of that context, which rolls its open transaction back.
\<close>

definition commit_session :: "world \<Rightarrow> world" where
  "commit_session s = s\<lparr>committed_search_path := search_path s\<rparr>"

definition rollback_session :: "world \<Rightarrow> world" where
  "rollback_session s = s\<lparr>search_path := committed_search_path s\<rparr>"

definition leave_app_context :: "world \<Rightarrow> world" where
  "leave_app_context s = rollback_session s"

definition sqlite_uri :: "string \<Rightarrow> string" where
  "sqlite_uri path = ''sqlite:///'' @ path"

text \<open>\<open>TenantManager.get_tenant_db_uri\<close> (lines 55-60).\<close>

definition get_tenant_db_uri :: "env \<Rightarrow> string \<Rightarrow> world \<Rightarrow> string" where
  "get_tenant_db_uri e license_key s =
     (if is_postgres s then config_uri s
      else sqlite_uri (get_tenant_db_path (basedir e) license_key))"

text \<open>
  Where a session reads and writes: a schema of the shared database or a database
  file. The shared \<open>db.session\<close> works on the database of its engine: a SQLite URI
  names a file; any other URI is the shared database, where a table is found in the
  first schema of \<open>search_path\<close> that has it.
\<close>

datatype target = Schema string | File string

definition read_target :: "world \<Rightarrow> target \<Rightarrow> store option" where
  "read_target s t = (case t of Schema n \<Rightarrow> schemas s n | File p \<Rightarrow> files s p)"

definition write_target :: "world \<Rightarrow> target \<Rightarrow> store \<Rightarrow> world" where
  "write_target s t st =
     (case t of Schema n \<Rightarrow> s\<lparr>schemas := (schemas s)(n \<mapsto> st)\<rparr>
              | File p \<Rightarrow> s\<lparr>files := (files s)(p \<mapsto> st)\<rparr>)"

definition holds_tables :: "world \<Rightarrow> string \<Rightarrow> bool" where
  "holds_tables s n = (case schemas s n of None \<Rightarrow> False | Some w \<Rightarrow> has_tables w)"

definition db_session_target :: "world \<Rightarrow> target option" where
  "db_session_target s =
     (if prefix ''sqlite:///'' (engine_uri s) then Some (File (drop 10 (engine_uri s)))
      else map_option Schema (find (holds_tables s) (search_path s)))"

text \<open>Python truthiness of a nullable string: neither \<open>None\<close> nor empty.\<close>

definition truthy :: "string option \<Rightarrow> bool" where
  "truthy x = (case x of None \<Rightarrow> False | Some v \<Rightarrow> v \<noteq> [])"

definition str_of :: "string option \<Rightarrow> string" where
  "str_of x = (case x of None \<Rightarrow> [] | Some v \<Rightarrow> v)"

text \<open>
  A session handle: the shared \<open>db.session\<close>, or a session on an engine of its own,
  made by \<open>create_engine(uri)\<close>.
\<close>

datatype sess = Shared | Engine string

definition sess_target :: "world \<Rightarrow> sess \<Rightarrow> target option" where
  "sess_target s h =
     (case h of
        Shared \<Rightarrow> db_session_target s
      | Engine uri \<Rightarrow>
          if prefix ''sqlite:///'' uri then Some (File (drop 10 uri)) else None)"

text \<open>
  A session connects with its first statement. SQLite then creates the database file
  of a new engine when there is none, empty. The file of the shared engine exists: the
  master registry is read through it.
\<close>

definition connect :: "world \<Rightarrow> sess \<Rightarrow> world" where
  "connect s h =
     (case h of
        Shared \<Rightarrow> s
      | Engine uri \<Rightarrow>
          if prefix ''sqlite:///'' uri \<and> files s (drop 10 uri) = None
          then s\<lparr>files := (files s)(drop 10 uri \<mapsto> no_tables)\<rparr>
          else s)"

text \<open>The tables a session sees; a query raises when there are none.\<close>

definition sess_store :: "world \<Rightarrow> sess \<Rightarrow> exn + target \<times> store" where
  "sess_store s h =
     (case sess_target s h of
        None \<Rightarrow> Inl NoSuchTable
      | Some t \<Rightarrow>
          (case read_target s t of
             None \<Rightarrow> Inl NoSuchTable
           | Some w \<Rightarrow> if has_tables w then Inr (t, w) else Inl NoSuchTable))"

section \<open>TenantManager: provisioning\<close>

text \<open>
  \<open>TenantManager.create_tenant_database\<close> (lines 75-124). Under PostgreSQL the
  statements of lines 84-102 run inside a \<open>with app.app_context()\<close> block of their
  own, on the session of that context, which ends with the block: the \<open>SET\<close>s of
  lines 85 and 101 are on that session and never reach the session of the caller, and
  a \<open>CREATE SCHEMA\<close> that line 86 has not committed is rolled back.
  \<open>db.create_all()\<close> (line 100) commits what it creates.
\<close>

definition create_tenant_database :: "env \<Rightarrow> string \<Rightarrow> world \<Rightarrow> world \<times> bool" where
  "create_tenant_database e license_key s0 =
     (let s = s0\<lparr>calls := calls s0 @ [Call_create_tenant_database license_key]\<rparr> in
      if is_postgres s then
        let schema = schema_name license_key in
        if raises e (TM 84) \<or> raises e (TM 85) \<or> raises e (TM 86) then (s, False) else
        let s1 = (case schemas s schema of
                    None \<Rightarrow> s\<lparr>schemas := (schemas s)(schema \<mapsto> no_tables)\<rparr>
                  | Some _ \<Rightarrow> s) in
        if raises e (TM 100) then (s1, False) else
        let s2 = (case schemas s1 schema of
                    None \<Rightarrow> s1
                  | Some st \<Rightarrow> s1\<lparr>schemas := (schemas s1)(schema \<mapsto> create_all st)\<rparr>) in
        if raises e (TM 101) \<or> raises e (TM 102) then (s2, False) else (s2, True)
      else
        let db_path = get_tenant_db_path (basedir e) license_key in
        if files s db_path \<noteq> None then (s, True) else
        if raises e (TM 112) then (s, False) else
        if raises e (TM 117) then (s, False) else
        let s1 = s\<lparr>files := (files s)(db_path \<mapsto> create_all no_tables)\<rparr> in
        if raises e (TM 118) then (s1, False) else (s1, True))"

text \<open>
  Seeding works on the tables the session sees. \<open>sess.add\<close> followed by the next
  flush gives the new row its key; keys are read only after a flush, so the model
  assigns the key when the row is added (the next free one).
\<close>

definition next_id :: "nat list \<Rightarrow> nat" where
  "next_id ids = Suc (fold max ids 0)"

definition add_role :: "store \<Rightarrow> string \<Rightarrow> string \<Rightarrow> store \<times> role" where
  "add_role w n d =
     (let r = \<lparr>role_id = next_id (map role_id (roles w)), role_name = n, role_description = d\<rparr>
      in (w\<lparr>roles := roles w @ [r]\<rparr>, r))"

definition add_branch :: "store \<Rightarrow> store \<times> branch" where
  "add_branch w =
     (let b = \<lparr>branch_id = next_id (map branch_id (branches w)), branch_code = ''MAIN'',
                branch_name_en = ''Main Branch'', branch_is_active = True\<rparr>
      in (w\<lparr>branches := branches w @ [b]\<rparr>, b))"

definition add_account :: "store \<Rightarrow> string \<Rightarrow> string \<Rightarrow> string \<Rightarrow> store" where
  "add_account w c n t =
     w\<lparr>accounts := accounts w @
        [\<lparr>account_id = next_id (map account_id (accounts w)), account_code = c,
          account_name_en = n, account_type = t, account_is_system = True\<rparr>]\<rparr>"

text \<open>
  The pattern of every seed item: the row is queried by its natural key and added when
  the query finds none. The role and the branch found or added are kept, since the
  admin user refers to their keys.
\<close>

definition ensure_role :: "store \<Rightarrow> string \<Rightarrow> string \<Rightarrow> store \<times> role" where
  "ensure_role w n d =
     (case find (\<lambda>r. role_name r = n) (roles w) of
        Some r \<Rightarrow> (w, r)
      | None \<Rightarrow> add_role w n d)"

definition ensure_branch :: "store \<Rightarrow> store \<times> branch \<times> bool" where
  "ensure_branch w =
     (case find (\<lambda>b. branch_code b = ''MAIN'') (branches w) of
        Some b \<Rightarrow> (w, b, False)
      | None \<Rightarrow> (fst (add_branch w), snd (add_branch w), True))"

definition ensure_account :: "store \<Rightarrow> string \<Rightarrow> string \<Rightarrow> string \<Rightarrow> store" where
  "ensure_account w c n t =
     (case find (\<lambda>a. account_code a = c) (accounts w) of
        Some _ \<Rightarrow> w
      | None \<Rightarrow> add_account w c n t)"

text \<open>Lines 148-159: the three roles.\<close>

definition seed_roles :: "env \<Rightarrow> store \<Rightarrow> exn + store \<times> role" where
  "seed_roles e w =
     (if raises e (TM 149) then Inl (Raised (TM 149)) else
      let (w1, admin_role) = ensure_role w ''admin'' ''Full system access'' in
      if raises e (TM 153) then Inl (Raised (TM 153)) else
      let w2 = fst (ensure_role w1 ''manager'' ''Manager access'') in
      if raises e (TM 156) then Inl (Raised (TM 156)) else
      let w3 = fst (ensure_role w2 ''user'' ''Basic user access'') in
      if raises e (TM 159) then Inl (Raised (TM 159)) else Inr (w3, admin_role))"

text \<open>Lines 161-166: the default branch; the flush of line 166 runs when it was added.\<close>

definition seed_branch :: "env \<Rightarrow> store \<Rightarrow> exn + store \<times> branch" where
  "seed_branch e w =
     (if raises e (TM 162) then Inl (Raised (TM 162)) else
      let (w1, main_branch, added) = ensure_branch w in
      if added \<and> raises e (TM 166) then Inl (Raised (TM 166)) else Inr (w1, main_branch))"

text \<open>Lines 168-187: the admin user of the license.\<close>

definition seed_email :: "license \<Rightarrow> string" where
  "seed_email license_obj =
     (let email = lic_client_email license_obj in
      if \<not> truthy email \<or> CHR ''@'' \<notin> set (str_of email)
      then str_of (lic_admin_username license_obj) @ ''@'' @
           (if truthy (lic_client_company license_obj)
            then str_of (lic_client_company license_obj) else ''company'') @ ''.com''
      else str_of email)"

definition seed_admin_user :: "env \<Rightarrow> license \<Rightarrow> role \<Rightarrow> branch \<Rightarrow> store \<Rightarrow> exn + store" where
  "seed_admin_user e license_obj admin_role main_branch w =
     (if truthy (lic_admin_username license_obj) \<and> truthy (lic_admin_password_hash license_obj)
      then
        if raises e (TM 170) then Inl (Raised (TM 170)) else
        let admin_user =
              find (\<lambda>u. user_username u = str_of (lic_admin_username license_obj)) (users w);
            email = seed_email license_obj in
        if raises e (TM 174) then Inl (Raised (TM 174)) else
        let existing_email = find (\<lambda>u. user_email u = email) (users w) in
        if admin_user = None \<and> existing_email = None
        then Inr (w\<lparr>users := users w @
               [\<lparr>user_id = next_id (map user_id (users w)),
                 user_username = str_of (lic_admin_username license_obj),
                 user_email = email,
                 user_full_name = lic_client_name license_obj,
                 user_phone = lic_client_phone license_obj,
                 user_is_active = True, user_is_admin = True,
                 user_role_id = role_id admin_role,
                 user_branch_id = branch_id main_branch,
                 user_password_hash = str_of (lic_admin_password_hash license_obj),
                 user_last_login = None\<rparr>]\<rparr>)
        else Inr w
      else Inr w)"

text \<open>Lines 189-200: the chart of accounts, as (code, name\_en, account\_type).\<close>

definition chart_of_accounts :: "(string \<times> string \<times> string) list" where
  "chart_of_accounts =
     [(''1000'', ''Assets'', ''asset''),
      (''2000'', ''Liabilities'', ''liability''),
      (''3000'', ''Equity'', ''equity''),
      (''4000'', ''Revenue'', ''revenue''),
      (''5000'', ''Expenses'', ''expense'')]"

fun seed_accounts :: "env \<Rightarrow> nat \<Rightarrow> (string \<times> string \<times> string) list \<Rightarrow> store \<Rightarrow> exn + store" where
  "seed_accounts e i [] w = Inr w"
| "seed_accounts e i ((c, n, t) # rest) w =
     (if raises e (TM_iter 197 i) then Inl (Raised (TM_iter 197 i))
      else seed_accounts e (Suc i) rest (ensure_account w c n t))"

text \<open>Lines 148-200: everything the session adds before the commit.\<close>

definition seed_body :: "env \<Rightarrow> license \<Rightarrow> store \<Rightarrow> exn + store" where
  "seed_body e license_obj w =
     (case seed_roles e w of
        Inl x \<Rightarrow> Inl x
      | Inr (w1, admin_role) \<Rightarrow>
          (case seed_branch e w1 of
             Inl x \<Rightarrow> Inl x
           | Inr (w2, main_branch) \<Rightarrow>
               (case seed_admin_user e license_obj admin_role main_branch w2 of
                  Inl x \<Rightarrow> Inl x
                | Inr w3 \<Rightarrow> seed_accounts e 0 chart_of_accounts w3)))"

text \<open>
  Lines 134-146: the session seeding works through. Under PostgreSQL the \<open>SET\<close> of
  line 138 is done inside the \<open>with app.app_context()\<close> block of lines 136-140, on
  the session of that context, which ends with the block. \<open>sess = db.session\<close> binds
  the session registry, so the statements from line 149 on go to the session of the
  context the caller is in (the login sequence calls from inside its own, line 23),
  where line 138 has changed nothing.
\<close>

definition init_open :: "env \<Rightarrow> string \<Rightarrow> world \<Rightarrow> world \<times> (exn + sess)" where
  "init_open e license_key s =
     (if is_postgres s then
        if raises e (TM 138) then (s, Inl (Raised (TM 138)))
        else (s, Inr Shared)
      else
        if raises e (TM 145) then (s, Inl (Raised (TM 145)))
        else (s, Inr (Engine (get_tenant_db_uri e license_key s))))"

text \<open>\<open>sess.commit()\<close>: on the shared session it also commits its \<open>search_path\<close>.\<close>

definition sess_commit :: "sess \<Rightarrow> world \<Rightarrow> world" where
  "sess_commit h s = (case h of Shared \<Rightarrow> commit_session s | Engine _ \<Rightarrow> s)"

text \<open>
  Lines 148-202: the session connects with the query of line 149; the seed rows are
  added in one transaction, which the commit of line 202 makes visible in the store.
\<close>

definition init_seed :: "env \<Rightarrow> license \<Rightarrow> sess \<Rightarrow> world \<Rightarrow> world \<times> exn option" where
  "init_seed e license_obj h s0 =
     (let s = connect s0 h in
      case sess_store s h of
        Inl x \<Rightarrow> (s, Some x)
      | Inr (t, w) \<Rightarrow>
          (case seed_body e license_obj w of
             Inl x \<Rightarrow> (s, Some x)
           | Inr w' \<Rightarrow>
               if raises e (TM 202) then (s, Some (Raised (TM 202)))
               else (sess_commit h (write_target s t w'), None)))"

text \<open>Lines 204-209: back to the public schema, or the engine is released.\<close>

definition init_release :: "env \<Rightarrow> world \<Rightarrow> world \<times> exn option" where
  "init_release e s =
     (if is_postgres s then
        if raises e (TM 205) then (s, Some (Raised (TM 205))) else
        let s1 = s\<lparr>search_path := [''public'']\<rparr> in
        if raises e (TM 206) then (s1, Some (Raised (TM 206))) else (commit_session s1, None)
      else
        if raises e (TM 208) then (s, Some (Raised (TM 208))) else
        if raises e (TM 209) then (s, Some (Raised (TM 209))) else (s, None))"

text \<open>
  Lines 214-225: the handler. When the exception came before \<open>sess\<close> was assigned,
  \<open>sess.rollback()\<close> itself raises and the inner \<open>except\<close> swallows it; so it does
  when the rollback or a later statement of the handler raises. Under PostgreSQL
  \<open>sess\<close> is the shared session, whose rollback also undoes a \<open>SET\<close> it has not
  committed.
\<close>

definition init_handler :: "env \<Rightarrow> bool \<Rightarrow> world \<Rightarrow> world" where
  "init_handler e sess_bound s =
     (if \<not> sess_bound then s
      else if raises e (TM 217) then s
      else
        let s1 = s\<lparr>calls := calls s @ [Call_rollback]\<rparr> in
        if \<not> is_postgres s1 then s1
        else
          let s2 = rollback_session s1 in
          if raises e (TM 222) then s2
          else s2\<lparr>search_path := [''public'']\<rparr>)"

text \<open>\<open>TenantManager.initialize_tenant_data\<close> (lines 126-225).\<close>

definition initialize_tenant_data :: "env \<Rightarrow> string \<Rightarrow> license \<Rightarrow> world \<Rightarrow> world \<times> bool" where
  "initialize_tenant_data e license_key license_obj s0 =
     (let s = s0\<lparr>calls := calls s0 @ [Call_initialize_tenant_data license_key]\<rparr> in
      case init_open e license_key s of
        (s1, Inl x) \<Rightarrow> (init_handler e False s1, False)
      | (s1, Inr h) \<Rightarrow>
          (case init_seed e license_obj h s1 of
             (s2, Some x) \<Rightarrow> (init_handler e True s2, False)
           | (s2, None) \<Rightarrow>
               (case init_release e s2 of
                  (s3, Some x) \<Rightarrow> (init_handler e True s3, False)
                | (s3, None) \<Rightarrow> (s3, True))))"

text \<open>\<open>TenantManager.switch_schema\<close> (lines 63-67).\<close>

definition switch_schema :: "env \<Rightarrow> string \<Rightarrow> world \<Rightarrow> world \<times> exn option" where
  "switch_schema e license_key s0 =
     (let s = s0\<lparr>calls := calls s0 @ [Call_switch_schema license_key]\<rparr>;
          schema = schema_name license_key in
      if raises e (TM 67) then (s, Some (Raised (TM 67)))
      else (s\<lparr>search_path := [schema, ''public'']\<rparr>, None))"

section \<open>The login sequence\<close>

text \<open>
  The messages of \<open>authenticate_with_license\<close>, by the line that returns them
  (37, 39, 41, 43, 54/61, 56/63, 80, 82, 84, 111, 118). The suspension message
  carries the reason, or \<open>None\<close> for the default text.
\<close>

datatype login_msg =
    Msg_license_key_invalid
  | Msg_license_inactive
  | Msg_license_suspended "string option"
  | Msg_license_expired
  | Msg_create_failed
  | Msg_init_failed
  | Msg_user_not_found
  | Msg_wrong_password
  | Msg_account_inactive
  | Msg_user_load_error
  | Msg_login_ok

type_synonym login_result = "bool \<times> login_msg \<times> user option"

definition expired :: "int option \<Rightarrow> int \<Rightarrow> bool" where
  "expired expires_at now = (case expires_at of None \<Rightarrow> False | Some t \<Rightarrow> t < now)"

text \<open>Step 1 (lines 24-43): the license is verified in the master store.\<close>

definition login_step1 :: "env \<Rightarrow> string \<Rightarrow> world \<Rightarrow> world \<times> (login_result, license) outcome" where
  "login_step1 e license_key s =
     (let (s1, x) =
            (if is_postgres s then
               if raises e (LG 26) then (s, Some (Raised (LG 26)))
               else (s\<lparr>search_path := [''public'']\<rparr>, None)
             else
               let s1 = s\<lparr>config_uri := sqlite_uri (get_master_db_path (basedir e))\<rparr> in
               if raises e (LG 31) then (s1, Some (Raised (LG 31))) else (s1, None)) in
      case x of
        Some ex \<Rightarrow> (s1, Raise ex)
      | None \<Rightarrow>
          if raises e (LG 35) then (s1, Raise (Raised (LG 35))) else
          (case licenses s1 license_key of
             None \<Rightarrow> (s1, Return (False, Msg_license_key_invalid, None))
           | Some lic \<Rightarrow>
               if \<not> lic_is_active lic then (s1, Return (False, Msg_license_inactive, None))
               else if lic_is_suspended lic then
                 (s1, Return (False,
                    Msg_license_suspended
                      (if truthy (lic_suspension_reason lic) then lic_suspension_reason lic else None),
                    None))
               else if expired (lic_expires_at lic) (utcnow e (LG 42)) then
                 (s1, Return (False, Msg_license_expired, None))
               else (s1, Next lic)))"

text \<open>Lines 53-56 and 60-63: the tenant store is created and seeded.\<close>

definition login_provision :: "env \<Rightarrow> string \<Rightarrow> license \<Rightarrow> world \<Rightarrow> world \<times> (login_result, unit) outcome" where
  "login_provision e license_key lic s =
     (case create_tenant_database e license_key s of
        (s1, False) \<Rightarrow> (s1, Return (False, Msg_create_failed, None))
      | (s1, True) \<Rightarrow>
          (case initialize_tenant_data e license_key lic s1 of
             (s2, False) \<Rightarrow> (s2, Return (False, Msg_init_failed, None))
           | (s2, True) \<Rightarrow> (s2, Next ())))"

text \<open>Step 2 (lines 45-63): the tenant store is provisioned when it does not exist.\<close>

definition login_step2 :: "env \<Rightarrow> string \<Rightarrow> license \<Rightarrow> world \<Rightarrow> world \<times> (login_result, unit) outcome" where
  "login_step2 e license_key lic s =
     (if is_postgres s then
        if raises e (LG 48) then (s, Raise (Raised (LG 48)))
        else if schemas s (schema_name license_key) = None
        then login_provision e license_key lic s
        else (s, Next ())
      else
        if files s (get_tenant_db_path (basedir e) license_key) = None
        then login_provision e license_key lic s
        else (s, Next ()))"

definition query_user :: "world \<Rightarrow> sess \<Rightarrow> string \<Rightarrow> exn + user option" where
  "query_user s h username =
     (case sess_store s h of
        Inl x \<Rightarrow> Inl x
      | Inr (t, w) \<Rightarrow> Inr (find (\<lambda>u. user_username u = username) (users w)))"

definition get_user :: "world \<Rightarrow> sess \<Rightarrow> nat \<Rightarrow> exn + user option" where
  "get_user s h uid =
     (case sess_store s h of
        Inl x \<Rightarrow> Inl x
      | Inr (t, w) \<Rightarrow> Inr (find (\<lambda>u. user_id u = uid) (users w)))"

definition set_last_login :: "world \<Rightarrow> sess \<Rightarrow> nat \<Rightarrow> int \<Rightarrow> exn + world" where
  "set_last_login s h uid now =
     (case sess_store s h of
        Inl x \<Rightarrow> Inl x
      | Inr (t, w) \<Rightarrow>
          Inr (write_target s t
                (w\<lparr>users := map (\<lambda>u. if user_id u = uid then u\<lparr>user_last_login := Some now\<rparr> else u)
                                 (users w)\<rparr>)))"

text \<open>
  Step 3 (lines 65-84): the user is looked up in the tenant store, through the shared
  session after \<open>switch_schema\<close> (PostgreSQL) or through a session on an engine of its
  own, which connects with the query of line 74 (SQLite), and the credentials are
  checked.
\<close>

definition login_step3 :: "env \<Rightarrow> string \<Rightarrow> string \<Rightarrow> string \<Rightarrow> world \<Rightarrow> world \<times> (login_result, user) outcome" where
  "login_step3 e username password license_key s =
     (let (s1, r) =
            (if is_postgres s then
               (case switch_schema e license_key s of
                  (s1, Some ex) \<Rightarrow> (s1, Inl ex)
                | (s1, None) \<Rightarrow>
                    if raises e (LG 68) then (s1, Inl (Raised (LG 68)))
                    else (s1, query_user s1 Shared username))
             else
               if raises e (LG 70) then (s, Inl (Raised (LG 70))) else
               let h = Engine (sqlite_uri (get_tenant_db_path (basedir e) license_key));
                   s1 = connect s h in
               if raises e (LG 74) then (s1, Inl (Raised (LG 74)))
               else (s1, query_user s1 h username)) in
      case r of
        Inl ex \<Rightarrow> (s1, Raise ex)
      | Inr None \<Rightarrow> (s1, Return (False, Msg_user_not_found, None))
      | Inr (Some u) \<Rightarrow>
          if \<not> check_password e u password then (s1, Return (False, Msg_wrong_password, None))
          else if \<not> user_is_active u then (s1, Return (False, Msg_account_inactive, None))
          else (s1, Next u))"

text \<open>
  Step 4 (lines 86-118): the login time is recorded through the shared session and
  committed, which under PostgreSQL also commits the \<open>search_path\<close> of step 3; under
  SQLite the configured URI is rewritten first, and line 105 reads through the shared
  session, on the database of its engine. Then the Flask session is bound to the
  tenant. Outside a request the assignment to \<open>session\<close> raises \<open>RuntimeError\<close>, which
  line 115 swallows.
\<close>

definition login_step4 :: "env \<Rightarrow> string \<Rightarrow> user \<Rightarrow> world \<Rightarrow> world \<times> (exn + login_result)" where
  "login_step4 e license_key u s =
     (let uid = user_id u;
          (s1, r) =
            (if is_postgres s then
               if raises e (LG 92) then (s, Inl (Raised (LG 92))) else
               (case set_last_login s Shared uid (utcnow e (LG 91)) of
                  Inl ex \<Rightarrow> (s, Inl ex)
                | Inr s1 \<Rightarrow>
                    let s2 = commit_session s1 in
                    if raises e (LG 94) then (s2, Inl (Raised (LG 94)))
                    else (s2, get_user s2 Shared uid))
             else
               let s1 = s\<lparr>config_uri := get_tenant_db_uri e license_key s\<rparr> in
               if raises e (LG 100) then (s1, Inl (Raised (LG 100))) else
               if raises e (LG 105) then (s1, Inl (Raised (LG 105))) else
               (case get_user s1 Shared uid of
                  Inl ex \<Rightarrow> (s1, Inl ex)
                | Inr None \<Rightarrow> (s1, Inr None)
                | Inr (Some u') \<Rightarrow>
                    if raises e (LG 108) then (s1, Inl (Raised (LG 108))) else
                    (case set_last_login s1 Shared uid (utcnow e (LG 107)) of
                       Inl ex \<Rightarrow> (s1, Inl ex)
                     | Inr s2 \<Rightarrow>
                         (commit_session s2,
                          Inr (Some (u'\<lparr>user_last_login := Some (utcnow e (LG 107))\<rparr>)))))) in
      case r of
        Inl ex \<Rightarrow> (s1, Inl ex)
      | Inr None \<Rightarrow> (s1, Inr (False, Msg_user_load_error, None))
      | Inr (Some u') \<Rightarrow>
          let s2 = (if in_request e then s1\<lparr>session_tenant_license_key := Some license_key\<rparr>
                    else s1)
          in (s2, Inr (True, Msg_login_ok, Some u')))"

text \<open>Lines 24-118: the four steps, inside the \<open>with\<close> block of line 23.\<close>

definition login_steps ::
    "env \<Rightarrow> string \<Rightarrow> string \<Rightarrow> string \<Rightarrow> world \<Rightarrow> world \<times> (exn + login_result)" where
  "login_steps e username password license_key s =
     (case login_step1 e license_key s of
        (s1, Raise ex) \<Rightarrow> (s1, Inl ex)
      | (s1, Return r) \<Rightarrow> (s1, Inr r)
      | (s1, Next lic) \<Rightarrow>
          (case login_step2 e license_key lic s1 of
             (s2, Raise ex) \<Rightarrow> (s2, Inl ex)
           | (s2, Return r) \<Rightarrow> (s2, Inr r)
           | (s2, Next _) \<Rightarrow>
               (case login_step3 e username password license_key s2 of
                  (s3, Raise ex) \<Rightarrow> (s3, Inl ex)
                | (s3, Return r) \<Rightarrow> (s3, Inr r)
                | (s3, Next u) \<Rightarrow> login_step4 e license_key u s3)))"

text \<open>
  \<open>authenticate_with_license\<close> (multi\_tenant\_login.py, lines 17-118): the steps run
  inside \<open>with app.app_context()\<close> (line 23), which every return and every exception
  leaves.
\<close>

definition authenticate_with_license ::
    "env \<Rightarrow> string \<Rightarrow> string \<Rightarrow> string \<Rightarrow> world \<Rightarrow> world \<times> (exn + login_result)" where
  "authenticate_with_license e username password license_key s =
     (let (s1, r) = login_steps e username password license_key s
      in (leave_app_context s1, r))"

section \<open>The request middleware\<close>

definition EXEMPT_ROUTES :: "string list" where
  "EXEMPT_ROUTES =
     [''/static/'', ''/auth/login'', ''/auth/logout'', ''/auth/register'',
      ''/security/license'', ''/security/create_license'', ''/_debug_toolbar/'',
      ''/favicon.ico'']"

text \<open>
  What the \<open>before_request\<close> hook returns: \<open>None\<close> lets the request proceed to its
  view, \<open>Some (Redirect ep)\<close> is \<open>redirect(url_for(ep))\<close>.
\<close>

datatype response = Redirect string

definition snapshot :: "license \<Rightarrow> license_data" where
  "snapshot l =
     \<lparr>ld_id = lic_id l, ld_license_key = lic_license_key l,
      ld_client_name = lic_client_name l, ld_client_email = lic_client_email l,
      ld_license_type = lic_license_type l, ld_expires_at = lic_expires_at l,
      ld_is_active = lic_is_active l, ld_is_suspended = lic_is_suspended l\<rparr>"

text \<open>
  \<open>License.query.filter_by(license_key=k, is_active=True, is_suspended=False).first()\<close>
  (lines 53-57 and 67-71).
\<close>

definition find_usable_license :: "world \<Rightarrow> string \<Rightarrow> license option" where
  "find_usable_license s k =
     (case licenses s k of
        None \<Rightarrow> None
      | Some l \<Rightarrow> if lic_is_active l \<and> \<not> lic_is_suspended l then Some l else None)"

text \<open>The body of the \<open>try\<close> (lines 49-94): the license is validated in the master store.\<close>

definition mw_validate :: "env \<Rightarrow> string \<Rightarrow> world \<Rightarrow> world \<times> (response option, unit) outcome" where
  "mw_validate e tenant_license_key s =
     (let (s1, r) =
            (if is_postgres s then
               if raises e (MW 51) then (s, Inl (Raised (MW 51))) else
               let s1 = s\<lparr>search_path := [''public'']\<rparr> in
               if raises e (MW 53) then (s1, Inl (Raised (MW 53)))
               else (s1, Inr (find_usable_license s1 tenant_license_key))
             else
               let s1 = s\<lparr>config_uri := sqlite_uri (get_master_db_path (basedir e))\<rparr> in
               if raises e (MW 63) then (s1, Inl (Raised (MW 63))) else
               if raises e (MW 67) then (s1, Inl (Raised (MW 67)))
               else (s1, Inr (find_usable_license s1 tenant_license_key))) in
      case r of
        Inl ex \<Rightarrow> (s1, Raise ex)
      | Inr None \<Rightarrow>
          (s1\<lparr>flashed := flashed s1 @ [Flash_license_inactive],
              session_tenant_license_key := None\<rparr>,
           Return (Some (Redirect ''auth.login'')))
      | Inr (Some l) \<Rightarrow>
          if expired (lic_expires_at l) (utcnow e (MW 78)) then
            (s1\<lparr>flashed := flashed s1 @ [Flash_license_expired],
                session_tenant_license_key := None\<rparr>,
             Return (Some (Redirect ''auth.login'')))
          else if raises e (MW 84) then (s1, Raise (Raised (MW 84)))
          else
            (s1\<lparr>g_license_data := Some (snapshot l),
                g_tenant_license_key := Some tenant_license_key\<rparr>,
             Next ()))"

text \<open>
  On PostgreSQL a statement that fails aborts the transaction of its session: every
  later statement of that session fails too, until the session is rolled back. Lines
  51 and 53 are the statements of the \<open>try\<close> that the shared session executes.
\<close>

definition session_aborted :: "world \<Rightarrow> (response option, unit) outcome \<Rightarrow> bool" where
  "session_aborted s r =
     (is_postgres s \<and> (r = Raise (Raised (MW 51)) \<or> r = Raise (Raised (MW 53))))"

text \<open>
  The \<open>finally\<close> block (lines 96-106): the switch to the tenant store. It does not roll
  back, so in an aborted transaction the \<open>SET\<close> of \<open>switch_schema\<close> fails.
\<close>

definition mw_switch :: "env \<Rightarrow> bool \<Rightarrow> string \<Rightarrow> world \<Rightarrow> world \<times> exn option" where
  "mw_switch e aborted tenant_license_key s =
     (if is_postgres s then
        if aborted
        then (s\<lparr>calls := calls s @ [Call_switch_schema tenant_license_key]\<rparr>, Some (Raised (TM 67)))
        else switch_schema e tenant_license_key s
      else
        if raises e (MW 101) then (s, Some (Raised (MW 101))) else
        let s1 = s\<lparr>config_uri := get_tenant_db_uri e tenant_license_key s\<rparr> in
        if raises e (MW 104) then (s1, Some (Raised (MW 104))) else (s1, None))"

text \<open>
  The hook \<open>switch_tenant_database\<close> (tenant\_middleware.py, lines 30-108). An
  exception of the \<open>finally\<close> block replaces the outcome of the \<open>try\<close>; otherwise the
  \<open>try\<close>'s return value or exception stands.
\<close>

definition switch_tenant_database :: "env \<Rightarrow> world \<Rightarrow> world \<times> (exn + response option)" where
  "switch_tenant_database e s =
     (if list_ex (\<lambda>exempt_route. prefix exempt_route (request_path e)) EXEMPT_ROUTES
      then (s, Inr None)
      else if \<not> truthy (session_tenant_license_key s) then
        if is_authenticated e
        then (s\<lparr>flashed := flashed s @ [Flash_no_tenant]\<rparr>, Inr (Some (Redirect ''auth.logout'')))
        else (s, Inr (Some (Redirect ''auth.login'')))
      else
        let tenant_license_key = str_of (session_tenant_license_key s);
            (s1, r) = mw_validate e tenant_license_key s;
            (s2, x) = mw_switch e (session_aborted s r) tenant_license_key s1 in
        case x of
          Some ex \<Rightarrow> (s2, Inl ex)
        | None \<Rightarrow>
            (case r of
               Raise ex \<Rightarrow> (s2, Inl ex)
             | Return resp \<Rightarrow> (s2, Inr resp)
             | Next _ \<Rightarrow> (s2, Inr None)))"

section \<open>The license control panel\<close>

text \<open>
  \<open>LicenseControl\<close> (license\_control.py) works on the \<open>licenses\<close> table of the master
  database through \<open>sqlite3\<close>; of a row only \<open>expires_at\<close> matters here, a nullable
  text column, and license keys are unique. A \<open>datetime\<close> is its number of
  microseconds since 0001-01-01 00:00:00; \<open>datetime.max\<close> is the last microsecond of
  the year 9999, 3652059 days later. \<open>strftime\<close> and \<open>strptime\<close> with the format
  \<open>%Y-%m-%d %H:%M:%S\<close> are parameters: \<open>strptime\<close> gives \<open>None\<close> where Python raises
  \<open>ValueError\<close>. \<open>lc_raises l\<close> says that the \<open>sqlite3\<close> call of line \<open>l\<close> raises; an
  update that is not committed is lost with its connection.
\<close>

record lc_env =
  lc_now :: int
  lc_strftime :: "int \<Rightarrow> string"
  lc_strptime :: "string \<Rightarrow> int option"
  lc_raises :: "nat \<Rightarrow> bool"

definition day_us :: int where
  "day_us = 86400 * 1000000"

definition datetime_max :: int where
  "datetime_max = 3652059 * day_us - 1"

text \<open>\<open>timedelta(days=days)\<close>: \<open>OverflowError\<close> beyond 999999999 days either way.\<close>

definition timedelta_days :: "int \<Rightarrow> int option" where
  "timedelta_days days = (if \<bar>days\<bar> \<le> 999999999 then Some (days * day_us) else None)"

text \<open>\<open>datetime + timedelta\<close>: \<open>OverflowError\<close> when the result is not a \<open>datetime\<close>.\<close>

definition datetime_add :: "int \<Rightarrow> int \<Rightarrow> int option" where
  "datetime_add dt td = (if 0 \<le> dt + td \<and> dt + td \<le> datetime_max then Some (dt + td) else None)"

text \<open>\<open>current_expires.split('.')[0]\<close>: the text before the first dot.\<close>

definition before_dot :: "string \<Rightarrow> string" where
  "before_dot s = takeWhile (\<lambda>c. c \<noteq> CHR ''.'') s"

datatype lc_msg = Lc_not_found | Lc_extended int int | Lc_error

text \<open>Lines 132-142: the date the extension starts from.\<close>

definition parse_expires :: "lc_env \<Rightarrow> string option \<Rightarrow> int" where
  "parse_expires e current_expires =
     (if truthy current_expires then
        (case lc_strptime e (str_of current_expires) of
           Some dt \<Rightarrow> dt
         | None \<Rightarrow>
             (case lc_strptime e (before_dot (str_of current_expires)) of
                Some dt \<Rightarrow> dt
              | None \<Rightarrow> lc_now e))
      else lc_now e)"

text \<open>
  \<open>LicenseControl.extend_license\<close> (lines 116-158). The table maps a license key to the
  \<open>expires_at\<close> column of its row; the message of line 156 is made of the number of
  days and the new date.
\<close>

definition extend_license ::
    "lc_env \<Rightarrow> string \<Rightarrow> int \<Rightarrow> (string \<rightharpoonup> string option) \<Rightarrow> (string \<rightharpoonup> string option) \<times> bool \<times> lc_msg" where
  "extend_license e license_key days tbl =
     (if lc_raises e 119 then (tbl, False, Lc_error) else
      if lc_raises e 123 then (tbl, False, Lc_error) else
      case tbl license_key of
        None \<Rightarrow>
          if lc_raises e 127 then (tbl, False, Lc_error) else (tbl, False, Lc_not_found)
      | Some current_expires \<Rightarrow>
          let expires_dt = parse_expires e current_expires in
          (case timedelta_days days of
             None \<Rightarrow> (tbl, False, Lc_error)
           | Some td \<Rightarrow>
               (case datetime_add expires_dt td of
                  None \<Rightarrow> (tbl, False, Lc_error)
                | Some new_expires \<Rightarrow>
                    if lc_raises e 147 then (tbl, False, Lc_error) else
                    if lc_raises e 153 then (tbl, False, Lc_error) else
                    let tbl' = tbl(license_key \<mapsto> Some (lc_strftime e new_expires)) in
                    if lc_raises e 154 then (tbl', False, Lc_error)
                    else (tbl', True, Lc_extended days new_expires))))"

section \<open>Notions the statements use\<close>

text \<open>Calling \<open>create_tenant_database\<close> and then \<open>initialize_tenant_data\<close>, whatever the first returns.\<close>

definition provision_and_seed :: "env \<Rightarrow> string \<Rightarrow> license \<Rightarrow> world \<Rightarrow> world" where
  "provision_and_seed e license_key license_obj s =
     (let (s1, created) = create_tenant_database e license_key s;
          (s2, seeded) = initialize_tenant_data e license_key license_obj s1
      in s2)"

text \<open>The store of a tenant under the strategy in force: its schema or its database file.\<close>

definition tenant_store :: "env \<Rightarrow> string \<Rightarrow> world \<Rightarrow> store option" where
  "tenant_store e license_key s =
     (if is_postgres s then schemas s (schema_name license_key)
      else files s (get_tenant_db_path (basedir e) license_key))"

text \<open>
  The isolation strategy of a deployment, as the code decides it. Under the per-file
  strategy neither the configured URI nor the URI of the master database is taken for
  a PostgreSQL one; under the shared-database strategy the configured URI is taken for
  a PostgreSQL one and the engine of the shared session is not a SQLite one.
\<close>

definition sqlite_strategy :: "env \<Rightarrow> world \<Rightarrow> bool" where
  "sqlite_strategy e s =
     (\<not> is_postgres s \<and> \<not> uri_is_postgres (sqlite_uri (get_master_db_path (basedir e))))"

definition postgres_strategy :: "world \<Rightarrow> bool" where
  "postgres_strategy s = (is_postgres s \<and> \<not> prefix ''sqlite:///'' (engine_uri s))"

text \<open>The keys of \<open>wanted\<close> that no present row carries, in order.\<close>

definition missing :: "'a list \<Rightarrow> 'a list \<Rightarrow> 'a list" where
  "missing present wanted = filter (\<lambda>k. k \<notin> set present) wanted"

text \<open>Whether seeding adds the admin user of a license to a store.\<close>

definition admin_wanted :: "license \<Rightarrow> store \<Rightarrow> bool" where
  "admin_wanted license_obj w =
     (truthy (lic_admin_username license_obj) \<and> truthy (lic_admin_password_hash license_obj)
      \<and> str_of (lic_admin_username license_obj) \<notin> set (map user_username (users w))
      \<and> seed_email license_obj \<notin> set (map user_email (users w)))"

text \<open>The store after a seeding transaction that commits.\<close>

definition seeded :: "env \<Rightarrow> license \<Rightarrow> store \<Rightarrow> store" where
  "seeded e license_obj w = (case seed_body e license_obj w of Inr w' \<Rightarrow> w' | Inl _ \<Rightarrow> w)"

text \<open>
  The database file of a tenant after \<open>create_tenant_database\<close> and
  \<open>initialize_tenant_data\<close> ran without an exception under SQLite: an absent file is
  created with its tables and seeded, an existing file is seeded as it is (and left
  alone when it has no tables, since seeding then fails).
\<close>

definition provisioned :: "env \<Rightarrow> string \<Rightarrow> license \<Rightarrow> world \<Rightarrow> store" where
  "provisioned e license_key license_obj s =
     (case files s (get_tenant_db_path (basedir e) license_key) of
        None \<Rightarrow> seeded e license_obj (create_all no_tables)
      | Some st \<Rightarrow> if has_tables st then seeded e license_obj st else st)"

section \<open>Concrete inputs\<close>

text \<open>
  A valid perpetual license \<open>LIC-0001\<close> with admin credentials, an environment in which
  no storage statement raises and every password is refused, and two deployments with
  that license registered: a SQLite one installed in \<open>/srv/app\<close> and a PostgreSQL one.
\<close>

definition demo_license :: license where
  "demo_license =
     \<lparr>lic_id = 1, lic_license_key = ''LIC-0001'', lic_client_name = Some ''Client'',
      lic_client_email = Some ''admin@client.example'', lic_client_company = Some ''client'',
      lic_client_phone = None, lic_license_type = Some ''standard'', lic_expires_at = None,
      lic_is_active = True, lic_is_suspended = False, lic_suspension_reason = None,
      lic_admin_username = Some ''admin'', lic_admin_password_hash = Some ''hash''\<rparr>"

definition demo_env :: env where
  "demo_env =
     \<lparr>basedir = ''/srv/app'', raises = (\<lambda>_. False), utcnow = (\<lambda>_. 1000),
      check_password = (\<lambda>_ _. False), in_request = True, request_path = ''/inventory'',
      is_authenticated = False\<rparr>"

definition demo_sqlite :: world where
  "demo_sqlite =
     \<lparr>config_uri = ''sqlite:////srv/app/licenses_master.db'',
      engine_uri = ''sqlite:////srv/app/licenses_master.db'',
      search_path = [''public''], committed_search_path = [''public''],
      licenses = [''LIC-0001'' \<mapsto> demo_license], schemas = Map.empty, files = Map.empty,
      session_tenant_license_key = None, g_tenant_license_key = None,
      g_license_data = None, flashed = [], calls = []\<rparr>"

definition demo_pg :: world where
  "demo_pg =
     demo_sqlite\<lparr>config_uri := ''postgresql://db.example/erp'',
                 engine_uri := ''postgresql://db.example/erp''\<rparr>"

text \<open>The admin user that seeding derives from the license, after a login at time 1000.\<close>

definition demo_admin :: user where
  "demo_admin =
     \<lparr>user_id = 1, user_username = ''admin'', user_email = ''admin@client.example'',
      user_full_name = Some ''Client'', user_phone = None, user_is_active = True,
      user_is_admin = True, user_role_id = 1, user_branch_id = 1,
      user_password_hash = ''hash'', user_last_login = Some 1000\<rparr>"

text \<open>The store of \<open>LIC-0001\<close> with its tables and its seed rows.\<close>

definition demo_store :: store where
  "demo_store =
     \<lparr>has_tables = True,
      roles =
        [\<lparr>role_id = 1, role_name = ''admin'', role_description = ''Full system access''\<rparr>,
         \<lparr>role_id = 2, role_name = ''manager'', role_description = ''Manager access''\<rparr>,
         \<lparr>role_id = 3, role_name = ''user'', role_description = ''Basic user access''\<rparr>],
      branches =
        [\<lparr>branch_id = 1, branch_code = ''MAIN'', branch_name_en = ''Main Branch'',
          branch_is_active = True\<rparr>],
      users = [demo_admin\<lparr>user_last_login := None\<rparr>],
      accounts =
        [\<lparr>account_id = 1, account_code = ''1000'', account_name_en = ''Assets'',
          account_type = ''asset'', account_is_system = True\<rparr>,
         \<lparr>account_id = 2, account_code = ''2000'', account_name_en = ''Liabilities'',
          account_type = ''liability'', account_is_system = True\<rparr>,
         \<lparr>account_id = 3, account_code = ''3000'', account_name_en = ''Equity'',
          account_type = ''equity'', account_is_system = True\<rparr>,
         \<lparr>account_id = 4, account_code = ''4000'', account_name_en = ''Revenue'',
          account_type = ''revenue'', account_is_system = True\<rparr>,
         \<lparr>account_id = 5, account_code = ''5000'', account_name_en = ''Expenses'',
          account_type = ''expense'', account_is_system = True\<rparr>]\<rparr>"

text \<open>
  The two deployments with the store of \<open>LIC-0001\<close> in place: the SQLite one after
  \<open>create_tenant_database\<close> and \<open>initialize_tenant_data\<close>, the PostgreSQL one with the
  schema \<open>tenant_lic_0001\<close> holding that store.
\<close>

definition demo_sqlite_seeded :: world where
  "demo_sqlite_seeded = provision_and_seed demo_env ''LIC-0001'' demo_license demo_sqlite"

definition demo_pg_seeded :: world where
  "demo_pg_seeded = demo_pg\<lparr>schemas := [''tenant_lic_0001'' \<mapsto> demo_store]\<rparr>"

text \<open>
  Requests of a session bound to \<open>LIC-0001\<close>; an environment in which the license
  lookup of the middleware raises; and the registry after the license was suspended.
\<close>

definition demo_request_sqlite :: world where
  "demo_request_sqlite = demo_sqlite_seeded\<lparr>session_tenant_license_key := Some ''LIC-0001''\<rparr>"

definition demo_request_pg :: world where
  "demo_request_pg = demo_pg_seeded\<lparr>session_tenant_license_key := Some ''LIC-0001''\<rparr>"

definition demo_env_lookup_raises :: env where
  "demo_env_lookup_raises = demo_env\<lparr>raises := (\<lambda>l. l = MW 53)\<rparr>"

definition demo_request_suspended :: world where
  "demo_request_suspended =
     demo_request_sqlite\<lparr>licenses := [''LIC-0001'' \<mapsto> demo_license\<lparr>lic_is_suspended := True\<rparr>]\<rparr>"

text \<open>
  The control panel on 2026-11-04 at noon, with the one line of \<open>strftime\<close>'s table
  that an extension by 30 days needs.
\<close>

definition demo_lc_env :: lc_env where
  "demo_lc_env =
     \<lparr>lc_now = 63929390400000000,
      lc_strftime = (\<lambda>t. if t = 63931982400000000 then ''2026-12-04 12:00:00'' else []),
      lc_strptime = (\<lambda>_. None), lc_raises = (\<lambda>_. False)\<rparr>"

text \<open>
  An environment in which the query for the third account raises during seeding, and
  the SQLite deployment after \<open>create_tenant_database\<close> made the file of \<open>LIC-0001\<close>.
\<close>

definition demo_env_seed_raises :: env where
  "demo_env_seed_raises = demo_env\<lparr>raises := (\<lambda>l. l = TM_iter 197 2)\<rparr>"

definition demo_sqlite_created :: world where
  "demo_sqlite_created = fst (create_tenant_database demo_env_seed_raises ''LIC-0001'' demo_sqlite)"

section \<open>Connection URIs\<close>

text \<open>A SQLite URI names the file whose path follows its ten-character scheme prefix.\<close>

lemma sqlite_uri_target [simp]:
  "prefix ''sqlite:///'' (sqlite_uri p)" "drop 10 (sqlite_uri p) = p"
  by (simp_all add: sqlite_uri_def)

section \<open>Properties of the store locator\<close>

lemma os_path_join_tenant_file:
  "os_path_join d (''tenant_'' @ k) =
     (if d = [] \<or> last d = CHR ''/'' then d else d @ ''/'') @ ''tenant_'' @ k"
  by (simp add: os_path_join_def)

lemma get_tenant_db_path_eq_iff:
  "get_tenant_db_path d a = get_tenant_db_path d b
     \<longleftrightarrow> replace_dash a = replace_dash b"
  unfolding get_tenant_db_path_def Let_def append_assoc [symmetric]
  unfolding append_assoc os_path_join_tenant_file
  by simp

lemma schema_name_eq_iff:
  "schema_name a = schema_name b \<longleftrightarrow> normalize_id a = normalize_id b"
  by (simp add: schema_name_def normalize_id_def)

text \<open>
  C1. Tenant identifiers that are not equivalent after normalisation of case and
  separator characters never share a storage target: their schema names differ and
  their database file paths differ.
\<close>

theorem locator_collision_free:
  assumes "normalize_id a \<noteq> normalize_id b"
  shows "schema_name a \<noteq> schema_name b
       \<and> get_tenant_db_path d a \<noteq> get_tenant_db_path d b"
proof
  show "schema_name a \<noteq> schema_name b"
    using assms by (simp add: schema_name_eq_iff)
next
  have "replace_dash a \<noteq> replace_dash b"
    using assms by (auto simp: normalize_id_def)
  then show "get_tenant_db_path d a \<noteq> get_tenant_db_path d b"
    by (simp add: get_tenant_db_path_eq_iff)
qed

theorem locator_collision_free_witness:
  "normalize_id ''LIC-0001'' \<noteq> normalize_id ''LIC-0002''
   \<and> schema_name ''LIC-0001'' \<noteq> schema_name ''LIC-0002''
   \<and> get_tenant_db_path ''/srv/app'' ''LIC-0001'' \<noteq> get_tenant_db_path ''/srv/app'' ''LIC-0002''"
proof -
  have h: "normalize_id ''LIC-0001'' \<noteq> normalize_id ''LIC-0002''"
    by (simp add: normalize_id_def str_lower_def replace_dash_def lower_char_def Let_def)
  show ?thesis
    using h locator_collision_free [OF h, of "''/srv/app''"] by simp
qed

section \<open>License gating\<close>

lemma leave_app_context_frame:
  "calls (leave_app_context s) = calls s"
  "schemas (leave_app_context s) = schemas s"
  "files (leave_app_context s) = files s"
  "licenses (leave_app_context s) = licenses s"
  "config_uri (leave_app_context s) = config_uri s"
  "engine_uri (leave_app_context s) = engine_uri s"
  "session_tenant_license_key (leave_app_context s) = session_tenant_license_key s"
  "committed_search_path (leave_app_context s) = committed_search_path s"
  "search_path (leave_app_context s) = committed_search_path s"
  by (simp_all add: leave_app_context_def rollback_session_def)

lemma login_step1_invalid:
  assumes "licenses s license_key = Some lic"
      and "\<not> lic_is_active lic \<or> lic_is_suspended lic
           \<or> expired (lic_expires_at lic) (utcnow e (LG 42))"
  shows "\<exists>s1 r. login_step1 e license_key s = (s1, r) \<and> (\<forall>l. r \<noteq> Next l)
          \<and> (\<forall>m u. r \<noteq> Return (True, m, u))
          \<and> calls s1 = calls s \<and> schemas s1 = schemas s \<and> files s1 = files s
          \<and> (\<not> raises e (LG 26) \<and> \<not> raises e (LG 31) \<and> \<not> raises e (LG 35)
               \<longrightarrow> (\<exists>m. r = Return (False, m, None)))"
  using assms by (auto simp: login_step1_def Let_def)

text \<open>
  C2. A login with a license that is inactive, suspended or expired fails before any
  tenant storage is touched: \<open>create_tenant_database\<close> and
  \<open>initialize_tenant_data\<close> are not called (no \<open>TenantManager\<close> call is made at
  all), the tenant stores are as before, the login is never reported successful, and
  it is reported as failed when the statements of step 1 do not raise.
\<close>

theorem license_gating:
  assumes "licenses s license_key = Some lic"
      and "\<not> lic_is_active lic \<or> lic_is_suspended lic
           \<or> expired (lic_expires_at lic) (utcnow e (LG 42))"
  shows "calls (fst (authenticate_with_license e username password license_key s)) = calls s
       \<and> schemas (fst (authenticate_with_license e username password license_key s)) = schemas s
       \<and> files (fst (authenticate_with_license e username password license_key s)) = files s
       \<and> (\<forall>m u. snd (authenticate_with_license e username password license_key s) \<noteq> Inr (True, m, u))
       \<and> (\<not> raises e (LG 26) \<and> \<not> raises e (LG 31) \<and> \<not> raises e (LG 35)
            \<longrightarrow> (\<exists>m. snd (authenticate_with_license e username password license_key s)
                      = Inr (False, m, None)))"
proof -
  obtain s1 r where st: "login_step1 e license_key s = (s1, r)"
      and nn: "\<forall>l. r \<noteq> Next l" and nt: "\<forall>m u. r \<noteq> Return (True, m, u)"
      and fr: "calls s1 = calls s" "schemas s1 = schemas s" "files s1 = files s"
      and ok: "\<not> raises e (LG 26) \<and> \<not> raises e (LG 31) \<and> \<not> raises e (LG 35)
               \<longrightarrow> (\<exists>m. r = Return (False, m, None))"
    using login_step1_invalid [OF assms] by blast
  show ?thesis
  proof (cases r)
    case (Raise x)
    with st fr ok show ?thesis
      by (auto simp: authenticate_with_license_def login_steps_def leave_app_context_frame)
  next
    case (Return res)
    with st fr ok nt show ?thesis
      by (auto simp: authenticate_with_license_def login_steps_def leave_app_context_frame)
  next
    case (Next l)
    with nn show ?thesis by simp
  qed
qed

theorem license_gating_witness:
  "licenses (demo_sqlite\<lparr>licenses := [''LIC-0001'' \<mapsto> demo_license\<lparr>lic_is_suspended := True\<rparr>]\<rparr>) ''LIC-0001''
      = Some (demo_license\<lparr>lic_is_suspended := True\<rparr>)
   \<and> lic_is_suspended (demo_license\<lparr>lic_is_suspended := True\<rparr>)
   \<and> calls (fst (authenticate_with_license demo_env ''admin'' ''secret'' ''LIC-0001''
        (demo_sqlite\<lparr>licenses := [''LIC-0001'' \<mapsto> demo_license\<lparr>lic_is_suspended := True\<rparr>]\<rparr>))) = []
   \<and> snd (authenticate_with_license demo_env ''admin'' ''secret'' ''LIC-0001''
        (demo_sqlite\<lparr>licenses := [''LIC-0001'' \<mapsto> demo_license\<lparr>lic_is_suspended := True\<rparr>]\<rparr>))
       = Inr (False, Msg_license_suspended None, None)"
proof -
  let ?lic = "demo_license\<lparr>lic_is_suspended := True\<rparr>"
  let ?s = "demo_sqlite\<lparr>licenses := [''LIC-0001'' \<mapsto> ?lic]\<rparr>"
  have h1: "licenses ?s ''LIC-0001'' = Some ?lic" by simp
  have h2: "\<not> lic_is_active ?lic \<or> lic_is_suspended ?lic
           \<or> expired (lic_expires_at ?lic) (utcnow demo_env (LG 42))" by simp
  have r: "snd (authenticate_with_license demo_env ''admin'' ''secret'' ''LIC-0001'' ?s)
       = Inr (False, Msg_license_suspended None, None)"
    by (simp add: authenticate_with_license_def login_steps_def login_step1_def is_postgres_def
        uri_is_postgres_def demo_sqlite_def demo_env_def demo_license_def truthy_def Let_def)
  have c: "calls ?s = []" by (simp add: demo_sqlite_def)
  show ?thesis
    using license_gating [OF h1 h2, of "''admin''" "''secret''"] r c by simp
qed

section \<open>The request middleware\<close>

lemma switch_tenant_database_unfold:
  assumes "\<not> list_ex (\<lambda>exempt_route. prefix exempt_route (request_path e)) EXEMPT_ROUTES"
    and "session_tenant_license_key s = Some k" "k \<noteq> []"
    and "mw_validate e k s = (s1, r)" "mw_switch e (session_aborted s r) k s1 = (s2, x)"
  shows "switch_tenant_database e s =
           (s2, case x of Some ex \<Rightarrow> Inl ex
                | None \<Rightarrow> (case r of Raise ex \<Rightarrow> Inl ex | Return resp \<Rightarrow> Inr resp
                            | Next _ \<Rightarrow> Inr None))"
  using assms
  by (simp add: switch_tenant_database_def truthy_def str_of_def Let_def
           split: option.splits outcome.splits)

text \<open>
  C8. With no storage statement raising, a request that is not exempt and whose session
  is bound to a tenant whose license is missing, inactive, suspended or expired pops
  the tenant key from the session and returns the redirect to the login page.
\<close>

theorem invalid_license_clears_session:
  assumes nf: "\<forall>l. \<not> raises e l"
    and "\<not> list_ex (\<lambda>exempt_route. prefix exempt_route (request_path e)) EXEMPT_ROUTES"
    and "session_tenant_license_key s = Some k" "k \<noteq> []"
    and inv: "case licenses s k of
                None \<Rightarrow> True
              | Some l \<Rightarrow> \<not> lic_is_active l \<or> lic_is_suspended l
                          \<or> expired (lic_expires_at l) (utcnow e (MW 78))"
  shows "snd (switch_tenant_database e s) = Inr (Some (Redirect ''auth.login''))
       \<and> session_tenant_license_key (fst (switch_tenant_database e s)) = None"
proof -
  obtain s1 r where v: "mw_validate e k s = (s1, r)" by (cases "mw_validate e k s")
  obtain s2 x where w: "mw_switch e (session_aborted s r) k s1 = (s2, x)" by (cases "mw_switch e (session_aborted s r) k s1")
  have r: "r = Return (Some (Redirect ''auth.login'')) \<and> session_tenant_license_key s1 = None"
    using v nf inv
    by (auto simp: mw_validate_def find_usable_license_def Let_def
             split: if_splits option.splits)
  have x: "x = None \<and> session_tenant_license_key s2 = session_tenant_license_key s1"
    using w nf r
    by (auto simp: mw_switch_def session_aborted_def switch_schema_def Let_def split: if_splits)
  show ?thesis
    using switch_tenant_database_unfold [OF assms(2,3,4) v w] r x by simp
qed

theorem invalid_license_clears_session_witness:
  "licenses demo_request_suspended ''LIC-0001'' = Some (demo_license\<lparr>lic_is_suspended := True\<rparr>)
   \<and> session_tenant_license_key demo_request_suspended = Some ''LIC-0001''
   \<and> snd (switch_tenant_database demo_env demo_request_suspended)
       = Inr (Some (Redirect ''auth.login''))
   \<and> session_tenant_license_key (fst (switch_tenant_database demo_env demo_request_suspended))
       = None"
proof -
  have nf: "\<forall>l. \<not> raises demo_env l" by (simp add: demo_env_def)
  have ne: "\<not> list_ex (\<lambda>exempt_route. prefix exempt_route (request_path demo_env)) EXEMPT_ROUTES"
    by code_simp
  have k: "session_tenant_license_key demo_request_suspended = Some ''LIC-0001''"
    by (simp add: demo_request_suspended_def demo_request_sqlite_def)
  have l: "licenses demo_request_suspended ''LIC-0001''
             = Some (demo_license\<lparr>lic_is_suspended := True\<rparr>)"
    by (simp add: demo_request_suspended_def)
  have inv: "case licenses demo_request_suspended ''LIC-0001'' of
                None \<Rightarrow> True
              | Some l \<Rightarrow> \<not> lic_is_active l \<or> lic_is_suspended l
                          \<or> expired (lic_expires_at l) (utcnow demo_env (MW 78))"
    by (simp add: l)
  have k3: "''LIC-0001'' \<noteq> []" by simp
  show ?thesis
    using invalid_license_clears_session [OF nf ne k k3 inv] k l by simp
qed

section \<open>Extending a license\<close>

text \<open>
  C10, as the code has it. For a license in the master store whose \<open>expires_at\<close> is
  null: when the current time plus the given number of days is a \<open>datetime\<close> (at most
  999999999 days either way and not outside the years 1 to 9999) and no \<open>sqlite3\<close>
  call raises, \<open>extend_license\<close> reports success and stores that date, so that the
  license is no longer perpetual; when it is not a \<open>datetime\<close>, \<open>extend_license\<close>
  reports failure and leaves the table as it was, the license perpetual, whichever
  \<open>sqlite3\<close> calls raise.
\<close>

theorem extend_perpetual_license:
  assumes "tbl license_key = Some None"
  shows "(\<bar>days\<bar> \<le> 999999999 \<and> 0 \<le> lc_now e + days * day_us
            \<and> lc_now e + days * day_us \<le> datetime_max \<and> (\<forall>l. \<not> lc_raises e l)
          \<longrightarrow> extend_license e license_key days tbl
                = (tbl(license_key \<mapsto> Some (lc_strftime e (lc_now e + days * day_us))),
                   True, Lc_extended days (lc_now e + days * day_us))
              \<and> fst (extend_license e license_key days tbl) license_key \<noteq> Some None)
       \<and> (\<not> (\<bar>days\<bar> \<le> 999999999 \<and> 0 \<le> lc_now e + days * day_us
               \<and> lc_now e + days * day_us \<le> datetime_max)
          \<longrightarrow> extend_license e license_key days tbl = (tbl, False, Lc_error)
              \<and> fst (extend_license e license_key days tbl) license_key = Some None)"
  using assms
  by (simp add: extend_license_def parse_expires_def truthy_def timedelta_days_def
        datetime_add_def Let_def)

theorem extend_perpetual_license_witness:
  "extend_license demo_lc_env ''LIC-0001'' 30 [''LIC-0001'' \<mapsto> None]
     = ([''LIC-0001'' \<mapsto> Some ''2026-12-04 12:00:00''], True,
        Lc_extended 30 63931982400000000)
   \<and> extend_license demo_lc_env ''LIC-0001'' (- 800000) [''LIC-0001'' \<mapsto> None]
     = ([''LIC-0001'' \<mapsto> None], False, Lc_error)"
proof -
  have a: "[''LIC-0001'' \<mapsto> (None :: string option)] ''LIC-0001'' = Some None" by simp
  have b: "\<bar>30 :: int\<bar> \<le> 999999999" by simp
  have c: "0 \<le> lc_now demo_lc_env + 30 * day_us"
    "lc_now demo_lc_env + 30 * day_us \<le> datetime_max"
    by (simp_all add: demo_lc_env_def day_us_def datetime_max_def)
  have d: "lc_now demo_lc_env + 30 * day_us = 63931982400000000"
    by (simp add: demo_lc_env_def day_us_def)
  have n: "\<forall>l. \<not> lc_raises demo_lc_env l"
    by (simp add: demo_lc_env_def)
  have o: "\<not> 0 \<le> lc_now demo_lc_env + (- 800000) * day_us"
    by (simp add: demo_lc_env_def day_us_def)
  have s: "lc_strftime demo_lc_env 63931982400000000 = ''2026-12-04 12:00:00''"
    by (simp add: demo_lc_env_def)
  have "extend_license demo_lc_env ''LIC-0001'' 30 [''LIC-0001'' \<mapsto> None]
     = ([''LIC-0001'' \<mapsto> Some ''2026-12-04 12:00:00''], True,
        Lc_extended 30 63931982400000000)"
    using extend_perpetual_license
            [where tbl = "[''LIC-0001'' \<mapsto> None]" and license_key = "''LIC-0001''"
               and days = 30 and e = demo_lc_env, OF a] b c d n s
    by simp
  moreover
  have "extend_license demo_lc_env ''LIC-0001'' (- 800000) [''LIC-0001'' \<mapsto> None]
     = ([''LIC-0001'' \<mapsto> None], False, Lc_error)"
    using extend_perpetual_license
            [where tbl = "[''LIC-0001'' \<mapsto> None]" and license_key = "''LIC-0001''"
               and days = "- 800000" and e = demo_lc_env, OF a] o
    by simp
  ultimately show ?thesis by simp
qed

text \<open>
  C10 as stated fails for a number of days that leads past the year 9999: the addition
  raises \<open>OverflowError\<close>, line 157 reports failure, and the license stays perpetual.
\<close>

theorem extend_perpetual_license_overflow:
  "extend_license demo_lc_env ''LIC-0001'' 3000000 [''LIC-0001'' \<mapsto> None]
     = ([''LIC-0001'' \<mapsto> None], False, Lc_error)"
  by (simp add: extend_license_def parse_expires_def truthy_def timedelta_days_def
        datetime_add_def Let_def demo_lc_env_def day_us_def datetime_max_def)

section \<open>The switch at the end of the middleware\<close>

lemma mw_validate_engine:
  "mw_validate e k s = (s1, r) \<Longrightarrow>
     engine_uri s1 = engine_uri s \<and> calls s1 = calls s
     \<and> (is_postgres s \<longrightarrow> config_uri s1 = config_uri s)
     \<and> (is_postgres s \<and> raises e (MW 51) \<longrightarrow> r = Raise (Raised (MW 51)) \<and> search_path s1 = search_path s)
     \<and> (is_postgres s \<and> \<not> raises e (MW 51) \<longrightarrow> search_path s1 = [''public''])
     \<and> (is_postgres s \<and> \<not> raises e (MW 51) \<and> raises e (MW 53) \<longrightarrow> r = Raise (Raised (MW 53)))"
  by (auto simp: mw_validate_def Let_def split: if_splits option.splits)

lemma mw_switch_engine:
  "mw_switch e a k s = (s', x) \<Longrightarrow> engine_uri s' = engine_uri s"
  by (auto simp: mw_switch_def switch_schema_def Let_def split: if_splits)

lemma mw_switch_aborted:
  "is_postgres s \<Longrightarrow> mw_switch e True k s = (s', x) \<Longrightarrow>
     x = Some (Raised (TM 67)) \<and> search_path s' = search_path s
     \<and> calls s' = calls s @ [Call_switch_schema k]"
  by (auto simp: mw_switch_def)

text \<open>
  C6 does not hold of the code. The \<open>finally\<close> block does run on every exit of the
  validation block, but it does not always bind the tenant's store. Under PostgreSQL,
  when the \<open>SET\<close> of line 51 or the license lookup of line 53 raises, the transaction
  of the shared session is aborted, so the \<open>SET\<close> of \<open>switch_schema\<close> raises as well:
  the hook ends with that exception and the \<open>search_path\<close> is not the tenant's (it is
  \<open>public\<close> when the lookup raised). Under SQLite the block rewrites the configured
  URI, while the shared session stays on the database of its engine, on every exit.
\<close>

theorem switch_does_not_bind_tenant:
  assumes "\<not> list_ex (\<lambda>exempt_route. prefix exempt_route (request_path e)) EXEMPT_ROUTES"
    and "session_tenant_license_key s = Some k" "k \<noteq> []"
  shows "(is_postgres s \<and> (raises e (MW 51) \<or> raises e (MW 53)) \<longrightarrow>
            snd (switch_tenant_database e s) = Inl (Raised (TM 67))
          \<and> search_path (fst (switch_tenant_database e s))
              = (if raises e (MW 51) then search_path s else [''public'']))
       \<and> engine_uri (fst (switch_tenant_database e s)) = engine_uri s
       \<and> (prefix ''sqlite:///'' (engine_uri s) \<longrightarrow>
            db_session_target (fst (switch_tenant_database e s))
              = Some (File (drop 10 (engine_uri s))))"
proof -
  obtain s1 r where v: "mw_validate e k s = (s1, r)" by (cases "mw_validate e k s")
  obtain s2 x where w: "mw_switch e (session_aborted s r) k s1 = (s2, x)"
    by (cases "mw_switch e (session_aborted s r) k s1")
  note u = switch_tenant_database_unfold [OF assms v w]
  note fr = mw_validate_engine [OF v]
  have en: "engine_uri s2 = engine_uri s"
    using mw_switch_engine [OF w] fr by simp
  have pg: "snd (switch_tenant_database e s) = Inl (Raised (TM 67))
          \<and> search_path (fst (switch_tenant_database e s))
              = (if raises e (MW 51) then search_path s else [''public''])"
    if p: "is_postgres s" and ra: "raises e (MW 51) \<or> raises e (MW 53)"
  proof -
    have ab: "session_aborted s r"
      using p ra fr by (auto simp: session_aborted_def)
    have p1: "is_postgres s1" using p fr by (simp add: is_postgres_def)
    from mw_switch_aborted [OF p1] w ab
    have "x = Some (Raised (TM 67))" "search_path s2 = search_path s1" by simp_all
    with u fr p ra show ?thesis by auto
  qed
  show ?thesis
    using pg en u by (auto simp: db_session_target_def)
qed

theorem switch_does_not_bind_tenant_witness:
  "is_postgres demo_request_pg \<and> raises demo_env_lookup_raises (MW 53)
   \<and> snd (switch_tenant_database demo_env_lookup_raises demo_request_pg) = Inl (Raised (TM 67))
   \<and> search_path (fst (switch_tenant_database demo_env_lookup_raises demo_request_pg))
       = [''public'']
   \<and> snd (switch_tenant_database demo_env demo_request_sqlite) = Inr None
   \<and> config_uri (fst (switch_tenant_database demo_env demo_request_sqlite))
       = ''sqlite:////srv/app/tenant_databases/tenant_LIC_0001.db''
   \<and> db_session_target (fst (switch_tenant_database demo_env demo_request_sqlite))
       = Some (File ''/srv/app/licenses_master.db'')"
proof -
  let ?e = demo_env_lookup_raises
  have ne: "\<not> list_ex (\<lambda>exempt_route. prefix exempt_route (request_path ?e)) EXEMPT_ROUTES"
           "\<not> list_ex (\<lambda>exempt_route. prefix exempt_route (request_path demo_env)) EXEMPT_ROUTES"
    by code_simp+
  have k1: "session_tenant_license_key demo_request_sqlite = Some ''LIC-0001''"
    by (simp add: demo_request_sqlite_def)
  have k2: "session_tenant_license_key demo_request_pg = Some ''LIC-0001''"
    by (simp add: demo_request_pg_def)
  have k3: "''LIC-0001'' \<noteq> []" by simp
  have pg: "is_postgres demo_request_pg" by code_simp
  have r1: "raises ?e (MW 53)" "\<not> raises ?e (MW 51)"
    by (simp_all add: demo_env_lookup_raises_def)
  have en: "engine_uri demo_request_sqlite = ''sqlite:////srv/app/licenses_master.db''"
    by code_simp
  have x1: "snd (switch_tenant_database demo_env demo_request_sqlite) = Inr None"
    by code_simp
  have x2: "config_uri (fst (switch_tenant_database demo_env demo_request_sqlite))
       = ''sqlite:////srv/app/tenant_databases/tenant_LIC_0001.db''"
    by code_simp
  show ?thesis
    using switch_does_not_bind_tenant [OF ne(1) k2 k3]
      switch_does_not_bind_tenant [OF ne(2) k1 k3] pg r1 en x1 x2
    by simp
qed

section \<open>What the steps leave alone\<close>

lemma commit_session_frame:
  "session_tenant_license_key (commit_session s) = session_tenant_license_key s"
  "licenses (commit_session s) = licenses s"
  "config_uri (commit_session s) = config_uri s"
  "engine_uri (commit_session s) = engine_uri s"
  "schemas (commit_session s) = schemas s"
  "files (commit_session s) = files s"
  "calls (commit_session s) = calls s"
  "search_path (commit_session s) = search_path s"
  "committed_search_path (commit_session s) = search_path s"
  by (simp_all add: commit_session_def)

lemma rollback_session_frame:
  "session_tenant_license_key (rollback_session s) = session_tenant_license_key s"
  "licenses (rollback_session s) = licenses s"
  "config_uri (rollback_session s) = config_uri s"
  "engine_uri (rollback_session s) = engine_uri s"
  "schemas (rollback_session s) = schemas s"
  "files (rollback_session s) = files s"
  "calls (rollback_session s) = calls s"
  "search_path (rollback_session s) = committed_search_path s"
  "committed_search_path (rollback_session s) = committed_search_path s"
  by (simp_all add: rollback_session_def)

lemma write_target_frame:
  "session_tenant_license_key (write_target s t w) = session_tenant_license_key s"
  "licenses (write_target s t w) = licenses s"
  "config_uri (write_target s t w) = config_uri s"
  "engine_uri (write_target s t w) = engine_uri s"
  "search_path (write_target s t w) = search_path s"
  "committed_search_path (write_target s t w) = committed_search_path s"
  "calls (write_target s t w) = calls s"
  by (simp_all add: write_target_def split: target.splits)

lemma connect_frame:
  "session_tenant_license_key (connect s h) = session_tenant_license_key s"
  "licenses (connect s h) = licenses s"
  "config_uri (connect s h) = config_uri s"
  "engine_uri (connect s h) = engine_uri s"
  "search_path (connect s h) = search_path s"
  "committed_search_path (connect s h) = committed_search_path s"
  "calls (connect s h) = calls s"
  "schemas (connect s h) = schemas s"
  by (simp_all add: connect_def split: sess.splits)

lemma sess_commit_frame:
  "session_tenant_license_key (sess_commit h s) = session_tenant_license_key s"
  "licenses (sess_commit h s) = licenses s"
  "config_uri (sess_commit h s) = config_uri s"
  "engine_uri (sess_commit h s) = engine_uri s"
  "schemas (sess_commit h s) = schemas s"
  "files (sess_commit h s) = files s"
  "calls (sess_commit h s) = calls s"
  "search_path (sess_commit h s) = search_path s"
  by (simp_all add: sess_commit_def commit_session_def split: sess.splits)

lemma create_tenant_database_frame:
  "create_tenant_database e k s = (s', ok) \<Longrightarrow>
     session_tenant_license_key s' = session_tenant_license_key s
     \<and> licenses s' = licenses s \<and> config_uri s' = config_uri s
     \<and> engine_uri s' = engine_uri s \<and> search_path s' = search_path s
     \<and> committed_search_path s' = committed_search_path s"
  by (auto simp: create_tenant_database_def Let_def split: if_splits option.splits)

lemma init_handler_frame:
  "session_tenant_license_key (init_handler e b s) = session_tenant_license_key s"
  "licenses (init_handler e b s) = licenses s"
  "config_uri (init_handler e b s) = config_uri s"
  "engine_uri (init_handler e b s) = engine_uri s"
  "schemas (init_handler e b s) = schemas s"
  "files (init_handler e b s) = files s"
  "committed_search_path (init_handler e b s) = committed_search_path s"
  by (simp_all add: init_handler_def Let_def rollback_session_def)

lemma init_open_state:
  "fst (init_open e k s) = s"
  by (simp add: init_open_def)

lemma init_seed_frame:
  "init_seed e l h s = (s', r) \<Longrightarrow>
     session_tenant_license_key s' = session_tenant_license_key s
     \<and> licenses s' = licenses s \<and> config_uri s' = config_uri s
     \<and> engine_uri s' = engine_uri s
     \<and> search_path s' = search_path s \<and> calls s' = calls s"
  by (auto simp: init_seed_def Let_def write_target_frame connect_frame sess_commit_frame
           split: if_splits sum.splits prod.splits)

lemma init_release_frame:
  "init_release e s = (s', r) \<Longrightarrow>
     session_tenant_license_key s' = session_tenant_license_key s
     \<and> licenses s' = licenses s \<and> config_uri s' = config_uri s
     \<and> engine_uri s' = engine_uri s
     \<and> schemas s' = schemas s \<and> files s' = files s \<and> calls s' = calls s"
  by (auto simp: init_release_def Let_def commit_session_def split: if_splits)

lemma initialize_tenant_data_frame:
  assumes "initialize_tenant_data e k l s = (s', ok)"
  shows "session_tenant_license_key s' = session_tenant_license_key s
     \<and> licenses s' = licenses s \<and> config_uri s' = config_uri s
     \<and> engine_uri s' = engine_uri s"
proof -
  let ?s0 = "s\<lparr>calls := calls s @ [Call_initialize_tenant_data k]\<rparr>"
  obtain s1 r1 where o: "init_open e k ?s0 = (s1, r1)" by (cases "init_open e k ?s0")
  have f1: "s1 = ?s0" using init_open_state [of e k ?s0] o by simp
  show ?thesis
  proof (cases r1)
    case (Inl x)
    with assms o f1 show ?thesis
      by (auto simp: initialize_tenant_data_def Let_def init_handler_frame)
  next
    case (Inr h)
    obtain s2 r2 where sd: "init_seed e l h s1 = (s2, r2)" by (cases "init_seed e l h s1")
    note f2 = init_seed_frame [OF sd]
    obtain s3 r3 where rl: "init_release e s2 = (s3, r3)" by (cases "init_release e s2")
    note f3 = init_release_frame [OF rl]
    from assms o Inr sd rl f1 f2 f3 show ?thesis
      by (auto simp: initialize_tenant_data_def Let_def init_handler_frame split: option.splits)
  qed
qed

lemma login_step1_frame:
  "login_step1 e k s = (s', r) \<Longrightarrow>
     session_tenant_license_key s' = session_tenant_license_key s
     \<and> licenses s' = licenses s \<and> schemas s' = schemas s \<and> files s' = files s
     \<and> calls s' = calls s \<and> engine_uri s' = engine_uri s
     \<and> committed_search_path s' = committed_search_path s"
  by (auto simp: login_step1_def Let_def split: if_splits option.splits)

lemma login_provision_frame:
  assumes "login_provision e k l s = (s', r)"
  shows "session_tenant_license_key s' = session_tenant_license_key s
     \<and> licenses s' = licenses s \<and> config_uri s' = config_uri s
     \<and> engine_uri s' = engine_uri s"
proof -
  obtain s1 ok1 where c: "create_tenant_database e k s = (s1, ok1)"
    by (cases "create_tenant_database e k s")
  obtain s2 ok2 where i: "initialize_tenant_data e k l s1 = (s2, ok2)"
    by (cases "initialize_tenant_data e k l s1")
  from assms c i create_tenant_database_frame [OF c] initialize_tenant_data_frame [OF i]
  show ?thesis
    by (auto simp: login_provision_def split: if_splits bool.splits)
qed

lemma login_step2_frame:
  "login_step2 e k l s = (s', r) \<Longrightarrow>
     session_tenant_license_key s' = session_tenant_license_key s
     \<and> licenses s' = licenses s \<and> config_uri s' = config_uri s
     \<and> engine_uri s' = engine_uri s"
  by (auto simp: login_step2_def dest: login_provision_frame split: if_splits)

lemma login_step3_frame:
  "login_step3 e u p k s = (s', r) \<Longrightarrow>
     session_tenant_license_key s' = session_tenant_license_key s
     \<and> licenses s' = licenses s \<and> config_uri s' = config_uri s
     \<and> engine_uri s' = engine_uri s \<and> schemas s' = schemas s
     \<and> committed_search_path s' = committed_search_path s"
  by (auto simp: login_step3_def switch_schema_def Let_def connect_frame
           split: if_splits prod.splits sum.splits option.splits)

section \<open>The session binding of a successful login\<close>

lemma login_step4_success:
  assumes "login_step4 e license_key u s = (s', Inr (True, m, u'))"
  shows "session_tenant_license_key s' =
           (if in_request e then Some license_key else session_tenant_license_key s)"
  using assms
  by (auto simp: login_step4_def Let_def set_last_login_def write_target_frame commit_session_frame
           split: if_splits sum.splits option.splits prod.splits)

lemma login_steps_success_step4:
  assumes "login_steps e username password license_key s = (s', Inr (True, m, u'))"
  shows "\<exists>s3 u. login_step4 e license_key u s3 = (s', Inr (True, m, u'))
               \<and> session_tenant_license_key s3 = session_tenant_license_key s"
proof -
  obtain s1 r1 where a1: "login_step1 e license_key s = (s1, r1)"
    by (cases "login_step1 e license_key s")
  have n1: "\<And>r. r1 = Return r \<Longrightarrow> \<not> fst r"
    using a1 by (auto simp: login_step1_def Let_def split: if_splits option.splits prod.splits)
  from assms a1 n1 obtain lic where r1: "r1 = Next lic"
    by (cases r1) (auto simp: login_steps_def)
  obtain s2 r2 where a2: "login_step2 e license_key lic s1 = (s2, r2)"
    by (cases "login_step2 e license_key lic s1")
  have n2: "\<And>r. r2 = Return r \<Longrightarrow> \<not> fst r"
    using a2 by (auto simp: login_step2_def login_provision_def split: if_splits prod.splits bool.splits)
  from assms a1 r1 a2 n2 have r2: "r2 = Next ()"
    by (cases r2) (auto simp: login_steps_def)
  obtain s3 r3 where a3: "login_step3 e username password license_key s2 = (s3, r3)"
    by (cases "login_step3 e username password license_key s2")
  have n3: "\<And>r. r3 = Return r \<Longrightarrow> \<not> fst r"
    using a3 by (auto simp: login_step3_def Let_def split: if_splits prod.splits sum.splits option.splits)
  from assms a1 r1 a2 r2 a3 n3 obtain u where r3: "r3 = Next u"
    by (cases r3) (auto simp: login_steps_def)
  from assms a1 r1 a2 r2 a3 r3
  have "login_step4 e license_key u s3 = (s', Inr (True, m, u'))"
    by (simp add: login_steps_def)
  moreover have "session_tenant_license_key s3 = session_tenant_license_key s"
    using login_step1_frame [OF a1] login_step2_frame [OF a2] login_step3_frame [OF a3] by simp
  ultimately show ?thesis by blast
qed

text \<open>
  C9, as the code has it. A login reported successful inside a request context leaves
  the submitted license key in \<open>session['tenant_license_key']\<close>. Outside a request
  context the assignment raises \<open>RuntimeError\<close>, line 115 swallows it, and the session
  binding is what it was before the call.
\<close>

theorem success_session_binding:
  assumes "authenticate_with_license e username password license_key s = (s', Inr (True, m, u))"
  shows "session_tenant_license_key s' =
           (if in_request e then Some license_key else session_tenant_license_key s)"
proof -
  obtain s4 where l: "login_steps e username password license_key s = (s4, Inr (True, m, u))"
      and s': "s' = leave_app_context s4"
    using assms by (auto simp: authenticate_with_license_def split: prod.splits)
  obtain s3 u0 where "login_step4 e license_key u0 s3 = (s4, Inr (True, m, u))"
      and "session_tenant_license_key s3 = session_tenant_license_key s"
    using login_steps_success_step4 [OF l] by blast
  then show ?thesis
    by (simp add: login_step4_success s' leave_app_context_frame)
qed

theorem success_session_binding_witness:
  "snd (authenticate_with_license (demo_env\<lparr>check_password := (\<lambda>_ _. True)\<rparr>)
           ''admin'' ''secret'' ''LIC-0001'' demo_pg_seeded)
     = Inr (True, Msg_login_ok, Some demo_admin)
   \<and> session_tenant_license_key
         (fst (authenticate_with_license (demo_env\<lparr>check_password := (\<lambda>_ _. True)\<rparr>)
                 ''admin'' ''secret'' ''LIC-0001'' demo_pg_seeded))
       = Some ''LIC-0001''"
proof -
  let ?e = "demo_env\<lparr>check_password := (\<lambda>_ _. True)\<rparr>"
  let ?a = "authenticate_with_license ?e ''admin'' ''secret'' ''LIC-0001'' demo_pg_seeded"
  have r: "snd ?a = Inr (True, Msg_login_ok, Some demo_admin)"
    by code_simp
  then have "?a = (fst ?a, Inr (True, Msg_login_ok, Some demo_admin))"
    by (simp add: prod_eq_iff)
  from success_session_binding [OF this] r show ?thesis
    by (simp add: demo_env_def)
qed

text \<open>
  C9 as stated fails outside a request context: on the PostgreSQL deployment the login
  of the admin user of \<open>LIC-0001\<close> succeeds and the session holds no tenant key.
\<close>

theorem success_without_session_binding:
  "snd (authenticate_with_license
          (demo_env\<lparr>check_password := (\<lambda>_ _. True), in_request := False\<rparr>)
          ''admin'' ''secret'' ''LIC-0001'' demo_pg_seeded)
     = Inr (True, Msg_login_ok, Some demo_admin)
   \<and> session_tenant_license_key
         (fst (authenticate_with_license
                 (demo_env\<lparr>check_password := (\<lambda>_ _. True), in_request := False\<rparr>)
                 ''admin'' ''secret'' ''LIC-0001'' demo_pg_seeded))
       = None"
  by code_simp

text \<open>
  On the SQLite deployment the same login does not return: line 98 rewrites the
  configured URI, the shared session stays on the master database, and the reload of
  line 105 finds no table of users there.
\<close>

lemma sqlite_login_raises_at_reload:
  "snd (authenticate_with_license (demo_env\<lparr>check_password := (\<lambda>_ _. True)\<rparr>)
           ''admin'' ''secret'' ''LIC-0001'' demo_sqlite_seeded)
     = Inl NoSuchTable
   \<and> config_uri (fst (authenticate_with_license (demo_env\<lparr>check_password := (\<lambda>_ _. True)\<rparr>)
           ''admin'' ''secret'' ''LIC-0001'' demo_sqlite_seeded))
     = ''sqlite:////srv/app/tenant_databases/tenant_LIC_0001.db''
   \<and> session_tenant_license_key
         (fst (authenticate_with_license (demo_env\<lparr>check_password := (\<lambda>_ _. True)\<rparr>)
                 ''admin'' ''secret'' ''LIC-0001'' demo_sqlite_seeded))
       = None"
  by code_simp

section \<open>The binding during and after a failed login\<close>

text \<open>
  C4, as the code has it. Stage 3 changes neither the configured URI nor the engine of
  the shared session, and commits nothing. Under the per-file strategy it reads
  through an engine of its own: the \<open>search_path\<close> of the shared session and the call
  log are as before, and so is the whole state when the tenant's file exists. Under
  the shared-database strategy it calls \<open>switch_schema\<close> on the shared session, whose
  \<open>search_path\<close> is the tenant's schema at the end of stage 3 (unless the statement
  raises).
\<close>

theorem stage3_binding:
  "config_uri (fst (login_step3 e username password license_key s)) = config_uri s
   \<and> engine_uri (fst (login_step3 e username password license_key s)) = engine_uri s
   \<and> committed_search_path (fst (login_step3 e username password license_key s))
       = committed_search_path s
   \<and> (\<not> is_postgres s \<longrightarrow>
        search_path (fst (login_step3 e username password license_key s)) = search_path s
      \<and> calls (fst (login_step3 e username password license_key s)) = calls s
      \<and> (files s (get_tenant_db_path (basedir e) license_key) \<noteq> None \<longrightarrow>
            fst (login_step3 e username password license_key s) = s))
   \<and> (is_postgres s \<longrightarrow>
        search_path (fst (login_step3 e username password license_key s))
          = (if raises e (TM 67) then search_path s
             else [schema_name license_key, ''public'']))"
  by (auto simp: login_step3_def switch_schema_def Let_def connect_def
           split: if_splits prod.splits sum.splits option.splits)

theorem stage3_binding_witness:
  "\<not> is_postgres demo_sqlite_seeded
   \<and> files demo_sqlite_seeded (get_tenant_db_path (basedir demo_env) ''LIC-0001'') \<noteq> None
   \<and> fst (login_step3 demo_env ''admin'' ''secret'' ''LIC-0001'' demo_sqlite_seeded)
       = demo_sqlite_seeded
   \<and> is_postgres demo_pg_seeded
   \<and> search_path (fst (login_step3 demo_env ''admin'' ''secret'' ''LIC-0001'' demo_pg_seeded))
       = [''tenant_lic_0001'', ''public'']
   \<and> committed_search_path
        (fst (login_step3 demo_env ''admin'' ''secret'' ''LIC-0001'' demo_pg_seeded))
       = [''public'']"
proof -
  have a: "\<not> is_postgres demo_sqlite_seeded" by code_simp
  have f: "files demo_sqlite_seeded (get_tenant_db_path (basedir demo_env) ''LIC-0001'') \<noteq> None"
    by code_simp
  have b: "is_postgres demo_pg_seeded" by code_simp
  have c: "\<not> raises demo_env (TM 67)" by (simp add: demo_env_def)
  have d: "schema_name ''LIC-0001'' = ''tenant_lic_0001''" by code_simp
  have g: "committed_search_path demo_pg_seeded = [''public'']" by code_simp
  show ?thesis
    using a b c d f g
      stage3_binding [of demo_env "''admin''" "''secret''" "''LIC-0001''" demo_sqlite_seeded]
      stage3_binding [of demo_env "''admin''" "''secret''" "''LIC-0001''" demo_pg_seeded]
    by simp
qed

text \<open>
  C4 as stated fails under the shared-database strategy: the shared session is on
  \<open>public\<close> before stage 3 and on the tenant's schema at its end, although the
  password is refused.
\<close>

theorem stage3_moves_shared_binding:
  "is_postgres demo_pg_seeded
   \<and> search_path demo_pg_seeded = [''public'']
   \<and> search_path (fst (login_step3 demo_env ''admin'' ''secret'' ''LIC-0001'' demo_pg_seeded))
       = [''tenant_lic_0001'', ''public'']
   \<and> snd (login_step3 demo_env ''admin'' ''secret'' ''LIC-0001'' demo_pg_seeded)
       = Return (False, Msg_wrong_password, None)"
  by code_simp

lemma step1_valid_sqlite:
  assumes "\<forall>l. \<not> raises e l" "\<not> is_postgres s" "licenses s k = Some lic" "lic_is_active lic"
    "\<not> lic_is_suspended lic" "\<not> expired (lic_expires_at lic) (utcnow e (LG 42))"
  shows "login_step1 e k s
           = (s\<lparr>config_uri := sqlite_uri (get_master_db_path (basedir e))\<rparr>, Next lic)"
  using assms by (simp add: login_step1_def Let_def)

lemma step1_valid_postgres:
  assumes "\<forall>l. \<not> raises e l" "is_postgres s" "licenses s k = Some lic" "lic_is_active lic"
    "\<not> lic_is_suspended lic" "\<not> expired (lic_expires_at lic) (utcnow e (LG 42))"
  shows "login_step1 e k s = (s\<lparr>search_path := [''public'']\<rparr>, Next lic)"
  using assms by (simp add: login_step1_def Let_def)

lemma wrong_password_sqlite:
  assumes nf: "\<forall>l. \<not> raises e l"
    and lic: "licenses s k = Some lic" "lic_is_active lic" "\<not> lic_is_suspended lic"
       "\<not> expired (lic_expires_at lic) (utcnow e (LG 42))"
    and strat: "sqlite_strategy e s"
    and st: "tenant_store e k s = Some st" "has_tables st"
    and u: "find (\<lambda>u. user_username u = username) (users st) = Some u"
       "\<not> check_password e u password"
  shows "login_steps e username password k s
           = (s\<lparr>config_uri := sqlite_uri (get_master_db_path (basedir e))\<rparr>,
              Inr (False, Msg_wrong_password, None))"
proof -
  let ?s1 = "s\<lparr>config_uri := sqlite_uri (get_master_db_path (basedir e))\<rparr>"
  from strat have np: "\<not> is_postgres s" and np1: "\<not> is_postgres ?s1"
    by (simp_all add: sqlite_strategy_def is_postgres_def)
  from st np have f: "files s (get_tenant_db_path (basedir e) k) = Some st"
    by (simp add: tenant_store_def)
  have 1: "login_step1 e k s = (?s1, Next lic)"
    using step1_valid_sqlite [OF nf np lic] .
  have 2: "login_step2 e k lic ?s1 = (?s1, Next ())"
    using np1 f by (simp add: login_step2_def)
  have 3: "login_step3 e username password k ?s1 = (?s1, Return (False, Msg_wrong_password, None))"
    using np1 f nf st u
    by (simp add: login_step3_def Let_def connect_def query_user_def sess_store_def
          sess_target_def read_target_def)
  show ?thesis
    by (simp add: login_steps_def 1 2 3)
qed

lemma wrong_password_postgres:
  assumes nf: "\<forall>l. \<not> raises e l"
    and lic: "licenses s k = Some lic" "lic_is_active lic" "\<not> lic_is_suspended lic"
       "\<not> expired (lic_expires_at lic) (utcnow e (LG 42))"
    and strat: "postgres_strategy s"
    and st: "tenant_store e k s = Some st" "has_tables st"
    and u: "find (\<lambda>u. user_username u = username) (users st) = Some u"
       "\<not> check_password e u password"
  shows "login_steps e username password k s
           = (s\<lparr>search_path := [schema_name k, ''public''],
                 calls := calls s @ [Call_switch_schema k]\<rparr>,
              Inr (False, Msg_wrong_password, None))"
proof -
  let ?s1 = "s\<lparr>search_path := [''public'']\<rparr>"
  from strat have p: "is_postgres s" and p1: "is_postgres ?s1"
    and ns: "\<not> prefix ''sqlite:///'' (engine_uri s)"
    by (simp_all add: postgres_strategy_def is_postgres_def)
  from st p have f: "schemas s (schema_name k) = Some st"
    by (simp add: tenant_store_def)
  have 1: "login_step1 e k s = (?s1, Next lic)"
    using step1_valid_postgres [OF nf p lic] .
  have 2: "login_step2 e k lic ?s1 = (?s1, Next ())"
    using p1 f nf by (simp add: login_step2_def)
  have 3: "login_step3 e username password k ?s1
             = (s\<lparr>search_path := [schema_name k, ''public''],
                   calls := calls s @ [Call_switch_schema k]\<rparr>,
                Return (False, Msg_wrong_password, None))"
    using p1 f nf st u ns
    by (simp add: login_step3_def switch_schema_def Let_def query_user_def sess_store_def
          sess_target_def db_session_target_def holds_tables_def read_target_def)
  show ?thesis
    by (simp add: login_steps_def 1 2 3)
qed

text \<open>
  C5. With a valid license, an existing tenant store, an existing user and a wrong
  password (and no storage statement raising), the login returns the wrong-password
  failure and the session's tenant key is what it was. The shared session is not
  left on the tenant's store: the engine is the one it had, and leaving the
  application context rolls back the \<open>SET\<close> of stage 3, so the \<open>search_path\<close> is the one
  committed before the call, which the login has not changed. The configured URI is
  the master database (SQLite) or what it was (PostgreSQL).
\<close>

theorem wrong_password_outcome:
  assumes nf: "\<forall>l. \<not> raises e l"
    and lic: "licenses s k = Some lic" "lic_is_active lic" "\<not> lic_is_suspended lic"
       "\<not> expired (lic_expires_at lic) (utcnow e (LG 42))"
    and strat: "sqlite_strategy e s \<or> postgres_strategy s"
    and st: "tenant_store e k s = Some st" "has_tables st"
    and u: "find (\<lambda>u. user_username u = username) (users st) = Some u"
       "\<not> check_password e u password"
  shows "snd (authenticate_with_license e username password k s)
           = Inr (False, Msg_wrong_password, None)
       \<and> session_tenant_license_key (fst (authenticate_with_license e username password k s))
           = session_tenant_license_key s
       \<and> engine_uri (fst (authenticate_with_license e username password k s)) = engine_uri s
       \<and> search_path (fst (authenticate_with_license e username password k s))
           = committed_search_path s
       \<and> committed_search_path (fst (authenticate_with_license e username password k s))
           = committed_search_path s
       \<and> config_uri (fst (authenticate_with_license e username password k s))
           = (if is_postgres s then config_uri s
              else sqlite_uri (get_master_db_path (basedir e)))"
proof (cases "sqlite_strategy e s")
  case True
  then have "\<not> is_postgres s"
    by (simp add: sqlite_strategy_def)
  then show ?thesis
    using wrong_password_sqlite [OF nf lic True st u]
    by (simp add: authenticate_with_license_def leave_app_context_frame)
next
  case False
  with strat have p: "postgres_strategy s" by simp
  then have "is_postgres s" by (simp add: postgres_strategy_def)
  then show ?thesis
    using wrong_password_postgres [OF nf lic p st u]
    by (simp add: authenticate_with_license_def leave_app_context_frame)
qed

theorem wrong_password_outcome_witness:
  "sqlite_strategy demo_env demo_sqlite_seeded
   \<and> tenant_store demo_env ''LIC-0001'' demo_sqlite_seeded = Some demo_store
   \<and> snd (authenticate_with_license demo_env ''admin'' ''secret'' ''LIC-0001'' demo_sqlite_seeded)
       = Inr (False, Msg_wrong_password, None)
   \<and> session_tenant_license_key
        (fst (authenticate_with_license demo_env ''admin'' ''secret'' ''LIC-0001'' demo_sqlite_seeded))
       = None
   \<and> config_uri
        (fst (authenticate_with_license demo_env ''admin'' ''secret'' ''LIC-0001'' demo_sqlite_seeded))
       = ''sqlite:////srv/app/licenses_master.db''
   \<and> postgres_strategy demo_pg_seeded
   \<and> tenant_store demo_env ''LIC-0001'' demo_pg_seeded = Some demo_store
   \<and> snd (authenticate_with_license demo_env ''admin'' ''secret'' ''LIC-0001'' demo_pg_seeded)
       = Inr (False, Msg_wrong_password, None)
   \<and> session_tenant_license_key
        (fst (authenticate_with_license demo_env ''admin'' ''secret'' ''LIC-0001'' demo_pg_seeded))
       = None
   \<and> search_path
        (fst (authenticate_with_license demo_env ''admin'' ''secret'' ''LIC-0001'' demo_pg_seeded))
       = [''public'']"
proof -
  have nf: "\<forall>l. \<not> raises demo_env l" by (simp add: demo_env_def)
  have l1: "licenses demo_sqlite_seeded ''LIC-0001'' = Some demo_license" by code_simp
  have l1': "licenses demo_pg_seeded ''LIC-0001'' = Some demo_license" by code_simp
  have l2: "lic_is_active demo_license" by (simp add: demo_license_def)
  have l3: "\<not> lic_is_suspended demo_license" by (simp add: demo_license_def)
  have l4: "\<not> expired (lic_expires_at demo_license) (utcnow demo_env (LG 42))"
    by (simp add: demo_license_def expired_def)
  have sq: "sqlite_strategy demo_env demo_sqlite_seeded" by code_simp
  have pg: "postgres_strategy demo_pg_seeded" by code_simp
  have st: "tenant_store demo_env ''LIC-0001'' demo_sqlite_seeded = Some demo_store"
    by code_simp
  have st': "tenant_store demo_env ''LIC-0001'' demo_pg_seeded = Some demo_store"
    by code_simp
  have ht: "has_tables demo_store" by (simp add: demo_store_def)
  have u1: "find (\<lambda>u. user_username u = ''admin'') (users demo_store)
              = Some (demo_admin\<lparr>user_last_login := None\<rparr>)"
    by (simp add: demo_store_def demo_admin_def)
  have u2: "\<not> check_password demo_env (demo_admin\<lparr>user_last_login := None\<rparr>) ''secret''"
    by (simp add: demo_env_def)
  have s0: "session_tenant_license_key demo_sqlite_seeded = None"
    "session_tenant_license_key demo_pg_seeded = None"
    "committed_search_path demo_pg_seeded = [''public'']"
    "\<not> is_postgres demo_sqlite_seeded"
    by code_simp+
  have m: "sqlite_uri (get_master_db_path (basedir demo_env))
             = ''sqlite:////srv/app/licenses_master.db''" by code_simp
  show ?thesis
    using wrong_password_outcome [OF nf l1 l2 l3 l4 disjI1 [OF sq] st ht u1 u2]
      wrong_password_outcome [OF nf l1' l2 l3 l4 disjI2 [OF pg] st' ht u1 u2]
      sq pg st st' s0 m
    by simp
qed

section \<open>Failures of seeding\<close>

lemma seed_accounts_no_raise:
  "seed_accounts e i xs w = Inr w' \<Longrightarrow> j < length xs \<Longrightarrow> \<not> raises e (TM_iter 197 (i + j))"
proof (induction xs arbitrary: i w j)
  case Nil
  then show ?case by simp
next
  case (Cons a xs)
  obtain c n t where a: "a = (c, n, t)" by (cases a)
  from Cons.prems(1) a have nr: "\<not> raises e (TM_iter 197 i)"
    by (auto split: if_splits)
  show ?case
  proof (cases j)
    case 0
    with nr show ?thesis by simp
  next
    case (Suc j')
    from Cons.prems a nr obtain w1 where "seed_accounts e (Suc i) xs w1 = Inr w'"
      by (auto split: if_splits)
    from Cons.IH [OF this, of j'] Cons.prems(2) Suc show ?thesis by simp
  qed
qed

lemma seed_roles_no_raise:
  "seed_roles e w = Inr r \<Longrightarrow>
     \<not> raises e (TM 149) \<and> \<not> raises e (TM 153) \<and> \<not> raises e (TM 156) \<and> \<not> raises e (TM 159)"
  by (auto simp: seed_roles_def Let_def split: if_splits prod.splits)

lemma seed_branch_no_raise:
  "seed_branch e w = Inr r \<Longrightarrow> \<not> raises e (TM 162)"
  by (auto simp: seed_branch_def split: if_splits)

lemma seed_body_no_raise:
  assumes "seed_body e lic w = Inr w'"
  shows "\<not> raises e (TM 149) \<and> \<not> raises e (TM 153) \<and> \<not> raises e (TM 156)
       \<and> \<not> raises e (TM 159) \<and> \<not> raises e (TM 162)
       \<and> (\<forall>i<5. \<not> raises e (TM_iter 197 i))"
proof -
  from assms obtain w1 ar where 1: "seed_roles e w = Inr (w1, ar)"
    by (auto simp: seed_body_def split: sum.splits)
  from assms 1 obtain w2 mb where 2: "seed_branch e w1 = Inr (w2, mb)"
    by (auto simp: seed_body_def split: sum.splits)
  from assms 1 2 obtain w3 where 3: "seed_accounts e 0 chart_of_accounts w3 = Inr w'"
    by (auto simp: seed_body_def split: sum.splits)
  have "\<forall>i<5. \<not> raises e (TM_iter 197 i)"
    using seed_accounts_no_raise [OF 3] by (simp add: chart_of_accounts_def)
  with seed_roles_no_raise [OF 1] seed_branch_no_raise [OF 2] show ?thesis by simp
qed

lemma init_seed_failed_state:
  "init_seed e lic h s = (s', Some x) \<Longrightarrow> s' = connect s h"
  by (auto simp: init_seed_def Let_def split: sum.splits prod.splits if_splits)

lemma init_seed_ok_no_raise:
  assumes "init_seed e lic h s = (s', None)"
  shows "\<not> raises e (TM 149) \<and> \<not> raises e (TM 153) \<and> \<not> raises e (TM 156)
       \<and> \<not> raises e (TM 159) \<and> \<not> raises e (TM 162)
       \<and> (\<forall>i<5. \<not> raises e (TM_iter 197 i)) \<and> \<not> raises e (TM 202)"
proof -
  from assms obtain w w' where "seed_body e lic w = Inr w'" and "\<not> raises e (TM 202)"
    by (auto simp: init_seed_def Let_def split: sum.splits prod.splits if_splits)
  with seed_body_no_raise show ?thesis by blast
qed

lemma initialize_tenant_data_cases:
  obtains (open_failed) x where
      "init_open e k (s\<lparr>calls := calls s @ [Call_initialize_tenant_data k]\<rparr>)
         = (s\<lparr>calls := calls s @ [Call_initialize_tenant_data k]\<rparr>, Inl x)"
      "initialize_tenant_data e k lic s
         = (init_handler e False (s\<lparr>calls := calls s @ [Call_initialize_tenant_data k]\<rparr>), False)"
  | (seed_failed) h x where
      "init_open e k (s\<lparr>calls := calls s @ [Call_initialize_tenant_data k]\<rparr>)
         = (s\<lparr>calls := calls s @ [Call_initialize_tenant_data k]\<rparr>, Inr h)"
      "init_seed e lic h (s\<lparr>calls := calls s @ [Call_initialize_tenant_data k]\<rparr>)
         = (connect (s\<lparr>calls := calls s @ [Call_initialize_tenant_data k]\<rparr>) h, Some x)"
      "initialize_tenant_data e k lic s
         = (init_handler e True
              (connect (s\<lparr>calls := calls s @ [Call_initialize_tenant_data k]\<rparr>) h), False)"
  | (release_failed) h s2 s3 x where
      "init_open e k (s\<lparr>calls := calls s @ [Call_initialize_tenant_data k]\<rparr>)
         = (s\<lparr>calls := calls s @ [Call_initialize_tenant_data k]\<rparr>, Inr h)"
      "init_seed e lic h (s\<lparr>calls := calls s @ [Call_initialize_tenant_data k]\<rparr>) = (s2, None)"
      "init_release e s2 = (s3, Some x)"
      "initialize_tenant_data e k lic s = (init_handler e True s3, False)"
  | (ok) h s2 s3 where
      "init_open e k (s\<lparr>calls := calls s @ [Call_initialize_tenant_data k]\<rparr>)
         = (s\<lparr>calls := calls s @ [Call_initialize_tenant_data k]\<rparr>, Inr h)"
      "init_seed e lic h (s\<lparr>calls := calls s @ [Call_initialize_tenant_data k]\<rparr>) = (s2, None)"
      "init_release e s2 = (s3, None)"
      "initialize_tenant_data e k lic s = (s3, True)"
proof -
  let ?s0 = "s\<lparr>calls := calls s @ [Call_initialize_tenant_data k]\<rparr>"
  obtain r1 where o: "init_open e k ?s0 = (?s0, r1)"
    using init_open_state [of e k ?s0] by (cases "init_open e k ?s0") simp
  show thesis
  proof (cases r1)
    case (Inl x)
    with o open_failed show ?thesis by (simp add: initialize_tenant_data_def Let_def)
  next
    case (Inr h)
    obtain s2 r2 where sd: "init_seed e lic h ?s0 = (s2, r2)" by (cases "init_seed e lic h ?s0")
    show ?thesis
    proof (cases r2)
      case (Some x)
      with sd init_seed_failed_state have "s2 = connect ?s0 h" by blast
      with o Inr sd Some seed_failed show ?thesis
        by (simp add: initialize_tenant_data_def Let_def)
    next
      case None
      obtain s3 r3 where rl: "init_release e s2 = (s3, r3)" by (cases "init_release e s2")
      from o Inr sd None rl release_failed ok show ?thesis
        by (cases r3) (simp_all add: initialize_tenant_data_def Let_def)
    qed
  qed
qed

lemma connect_files:
  "files (connect s h) p = files s p \<or> (files s p = None \<and> files (connect s h) p = Some no_tables)"
  by (simp add: connect_def split: sess.splits)

lemma login_reports_init_failure:
  assumes "snd (login_step1 e k t) = Next lic"
    and "tenant_store e k (fst (login_step1 e k t)) = None" and "\<not> raises e (LG 48)"
    and "snd (create_tenant_database e k (fst (login_step1 e k t)))"
    and "\<not> snd (initialize_tenant_data e k lic
                  (fst (create_tenant_database e k (fst (login_step1 e k t)))))"
  shows "snd (authenticate_with_license e username password k t)
           = Inr (False, Msg_init_failed, None)"
proof -
  obtain s1 where 1: "login_step1 e k t = (s1, Next lic)"
    using assms(1) by (cases "login_step1 e k t") simp
  obtain s2 where 2: "create_tenant_database e k s1 = (s2, True)"
    using assms(4) 1 by (cases "create_tenant_database e k s1") simp
  obtain s3 where 3: "initialize_tenant_data e k lic s2 = (s3, False)"
    using assms(5) 1 2 by (cases "initialize_tenant_data e k lic s2") simp
  have "login_step2 e k lic s1 = (s3, Return (False, Msg_init_failed, None))"
    using assms(2,3) 1 2 3
    by (auto simp: login_step2_def login_provision_def tenant_store_def split: if_splits)
  with 1 show ?thesis
    by (simp add: authenticate_with_license_def login_steps_def)
qed

text \<open>
  C7. An exception raised by a seeding statement never leaves
  \<open>initialize_tenant_data\<close>: the function returns \<open>False\<close>. When the seeding
  transaction (lines 148-202) raises, no row has been written: the schemas are as they
  were before the call, and so is every database file, except that a file that did
  not exist may now exist, empty (the session connected before it failed); and, unless
  \<open>sess.rollback()\<close> itself raises, the rollback has been called. A login whose step 2
  gets \<open>False\<close> from \<open>initialize_tenant_data\<close> returns the seeding-failed result of
  line 56/63 instead of raising.
\<close>

theorem seeding_failure_reported:
  "((raises e (TM 149) \<or> raises e (TM 153) \<or> raises e (TM 156) \<or> raises e (TM 159)
      \<or> raises e (TM 162) \<or> (\<exists>i<5. raises e (TM_iter 197 i)) \<or> raises e (TM 202))
     \<longrightarrow> \<not> snd (initialize_tenant_data e k lic s))
   \<and> ((\<exists>h x. snd (init_open e k (s\<lparr>calls := calls s @ [Call_initialize_tenant_data k]\<rparr>)) = Inr h
           \<and> snd (init_seed e lic h
                    (fst (init_open e k (s\<lparr>calls := calls s @ [Call_initialize_tenant_data k]\<rparr>))))
               = Some x)
     \<longrightarrow> \<not> snd (initialize_tenant_data e k lic s)
         \<and> schemas (fst (initialize_tenant_data e k lic s)) = schemas s
         \<and> (\<forall>p. files (fst (initialize_tenant_data e k lic s)) p = files s p
                \<or> (files s p = None
                    \<and> files (fst (initialize_tenant_data e k lic s)) p = Some no_tables))
         \<and> (\<not> raises e (TM 217) \<longrightarrow>
               Call_rollback \<in> set (calls (fst (initialize_tenant_data e k lic s)))))
   \<and> (snd (login_step1 e k t) = Next lic
       \<and> tenant_store e k (fst (login_step1 e k t)) = None \<and> \<not> raises e (LG 48)
       \<and> snd (create_tenant_database e k (fst (login_step1 e k t)))
       \<and> \<not> snd (initialize_tenant_data e k lic
                   (fst (create_tenant_database e k (fst (login_step1 e k t)))))
     \<longrightarrow> snd (authenticate_with_license e username password k t)
           = Inr (False, Msg_init_failed, None))"
proof (intro conjI impI)
  assume r: "raises e (TM 149) \<or> raises e (TM 153) \<or> raises e (TM 156) \<or> raises e (TM 159)
      \<or> raises e (TM 162) \<or> (\<exists>i<5. raises e (TM_iter 197 i)) \<or> raises e (TM 202)"
  show "\<not> snd (initialize_tenant_data e k lic s)"
  proof (cases rule: initialize_tenant_data_cases [where e = e and k = k and s = s and lic = lic])
    case (ok h s2 s3)
    from init_seed_ok_no_raise [OF ok(2)] r show ?thesis by blast
  qed simp_all
next
  let ?s0 = "s\<lparr>calls := calls s @ [Call_initialize_tenant_data k]\<rparr>"
  assume "\<exists>h x. snd (init_open e k ?s0) = Inr h
            \<and> snd (init_seed e lic h (fst (init_open e k ?s0))) = Some x"
  then obtain h x where o: "snd (init_open e k ?s0) = Inr h"
      and f: "snd (init_seed e lic h (fst (init_open e k ?s0))) = Some x"
    by blast
  have o': "init_open e k ?s0 = (?s0, Inr h)"
    using o init_open_state [of e k ?s0] by (cases "init_open e k ?s0") simp
  from f o' have f': "init_seed e lic h ?s0 = (connect ?s0 h, Some x)"
    using init_seed_failed_state [of e lic h ?s0 _ x]
    by (cases "init_seed e lic h ?s0") simp
  have i: "initialize_tenant_data e k lic s = (init_handler e True (connect ?s0 h), False)"
    using o' f' by (simp add: initialize_tenant_data_def Let_def)
  show "\<not> snd (initialize_tenant_data e k lic s)" by (simp add: i)
  show "schemas (fst (initialize_tenant_data e k lic s)) = schemas s"
    by (simp add: i init_handler_frame connect_frame)
  show "\<forall>p. files (fst (initialize_tenant_data e k lic s)) p = files s p
                \<or> (files s p = None
                    \<and> files (fst (initialize_tenant_data e k lic s)) p = Some no_tables)"
    using connect_files [of ?s0 h] by (simp add: i init_handler_frame)
  show "Call_rollback \<in> set (calls (fst (initialize_tenant_data e k lic s)))"
    if "\<not> raises e (TM 217)"
    using that by (simp add: i init_handler_def Let_def rollback_session_def)
next
  assume "snd (login_step1 e k t) = Next lic
       \<and> tenant_store e k (fst (login_step1 e k t)) = None \<and> \<not> raises e (LG 48)
       \<and> snd (create_tenant_database e k (fst (login_step1 e k t)))
       \<and> \<not> snd (initialize_tenant_data e k lic
                   (fst (create_tenant_database e k (fst (login_step1 e k t)))))"
  then show "snd (authenticate_with_license e username password k t)
           = Inr (False, Msg_init_failed, None)"
    using login_reports_init_failure by blast
qed

theorem seeding_failure_reported_witness:
  "raises demo_env_seed_raises (TM_iter 197 2)
   \<and> snd (init_seed demo_env_seed_raises demo_license
            (Engine ''sqlite:////srv/app/tenant_databases/tenant_LIC_0001.db'')
            (demo_sqlite_created\<lparr>calls := calls demo_sqlite_created
                                             @ [Call_initialize_tenant_data ''LIC-0001'']\<rparr>))
       = Some (Raised (TM_iter 197 2))
   \<and> \<not> snd (initialize_tenant_data demo_env_seed_raises ''LIC-0001'' demo_license demo_sqlite_created)
   \<and> files (fst (initialize_tenant_data demo_env_seed_raises ''LIC-0001'' demo_license
                   demo_sqlite_created)) ''/srv/app/tenant_databases/tenant_LIC_0001.db''
       = Some (create_all no_tables)
   \<and> calls (fst (initialize_tenant_data demo_env_seed_raises ''LIC-0001'' demo_license
                   demo_sqlite_created))
       = [Call_create_tenant_database ''LIC-0001'', Call_initialize_tenant_data ''LIC-0001'',
          Call_rollback]
   \<and> snd (authenticate_with_license demo_env_seed_raises ''admin'' ''secret'' ''LIC-0001''
            demo_sqlite)
       = Inr (False, Msg_init_failed, None)
   \<and> snd (init_seed demo_env demo_license
            (Engine ''sqlite:////srv/app/tenant_databases/tenant_LIC_0001.db'')
            (demo_sqlite\<lparr>calls := calls demo_sqlite @ [Call_initialize_tenant_data ''LIC-0001'']\<rparr>))
       = Some NoSuchTable
   \<and> files demo_sqlite ''/srv/app/tenant_databases/tenant_LIC_0001.db'' = None
   \<and> files (fst (initialize_tenant_data demo_env ''LIC-0001'' demo_license demo_sqlite))
        ''/srv/app/tenant_databases/tenant_LIC_0001.db''
       = Some no_tables"
proof -
  let ?e = demo_env_seed_raises
  let ?h = "Engine ''sqlite:////srv/app/tenant_databases/tenant_LIC_0001.db''"
  let ?p = "''/srv/app/tenant_databases/tenant_LIC_0001.db''"
  let ?s0 = "demo_sqlite_created\<lparr>calls := calls demo_sqlite_created
                                             @ [Call_initialize_tenant_data ''LIC-0001'']\<rparr>"
  let ?t0 = "demo_sqlite\<lparr>calls := calls demo_sqlite @ [Call_initialize_tenant_data ''LIC-0001'']\<rparr>"
  have r: "raises ?e (TM_iter 197 2)" by (simp add: demo_env_seed_raises_def)
  then have r': "\<exists>i<5. raises ?e (TM_iter 197 i)" by (intro exI [of _ 2]) simp
  have o: "snd (init_open ?e ''LIC-0001'' ?s0) = Inr ?h" by code_simp
  have o1: "init_open ?e ''LIC-0001'' ?s0 = (?s0, Inr ?h)"
    using o by (auto simp: init_open_def split: if_splits)
  have f: "snd (init_seed ?e demo_license ?h ?s0) = Some (Raised (TM_iter 197 2))"
    by code_simp
  have c: "calls (fst (initialize_tenant_data ?e ''LIC-0001'' demo_license demo_sqlite_created))
       = [Call_create_tenant_database ''LIC-0001'', Call_initialize_tenant_data ''LIC-0001'',
          Call_rollback]"
    by code_simp
  have fc: "files demo_sqlite_created ?p = Some (create_all no_tables)" by code_simp
  have l1: "snd (login_step1 ?e ''LIC-0001'' demo_sqlite) = Next demo_license" by code_simp
  have l2: "tenant_store ?e ''LIC-0001'' (fst (login_step1 ?e ''LIC-0001'' demo_sqlite)) = None"
    by code_simp
  have l3: "\<not> raises ?e (LG 48)" by (simp add: demo_env_seed_raises_def)
  have l4: "snd (create_tenant_database ?e ''LIC-0001'' (fst (login_step1 ?e ''LIC-0001'' demo_sqlite)))"
    by code_simp
  have l5: "\<not> snd (initialize_tenant_data ?e ''LIC-0001'' demo_license
                   (fst (create_tenant_database ?e ''LIC-0001''
                          (fst (login_step1 ?e ''LIC-0001'' demo_sqlite)))))"
    by code_simp
  have p: "snd (init_open demo_env ''LIC-0001'' ?t0) = Inr ?h" by code_simp
  have p1: "init_open demo_env ''LIC-0001'' ?t0 = (?t0, Inr ?h)"
    using p by (auto simp: init_open_def split: if_splits)
  have q: "snd (init_seed demo_env demo_license ?h ?t0) = Some NoSuchTable" by code_simp
  have fa: "files demo_sqlite ?p = None" by (simp add: demo_sqlite_def)
  have fb: "files (fst (initialize_tenant_data demo_env ''LIC-0001'' demo_license demo_sqlite)) ?p
              = Some no_tables"
    by code_simp
  have nc: "create_all no_tables \<noteq> no_tables" by (simp add: create_all_def no_tables_def)
  have a: "\<not> snd (initialize_tenant_data ?e ''LIC-0001'' demo_license demo_sqlite_created)
      \<and> files (fst (initialize_tenant_data ?e ''LIC-0001'' demo_license demo_sqlite_created)) ?p
          = Some (create_all no_tables)
      \<and> snd (authenticate_with_license ?e ''admin'' ''secret'' ''LIC-0001'' demo_sqlite)
          = Inr (False, Msg_init_failed, None)"
    using seeding_failure_reported
            [of ?e "''LIC-0001''" demo_license demo_sqlite_created demo_sqlite
                "''admin''" "''secret''"]
      r r' o o1 f l1 l2 l3 l4 l5 fc nc
    by (auto dest!: spec [of _ ?p])
  show ?thesis
    using a r f c q fa fb by simp
qed

section \<open>Provisioning under PostgreSQL\<close>

lemma find_in_set:
  "find P xs = Some x \<Longrightarrow> x \<in> set xs"
  by (auto simp: find_Some_iff)

lemma init_seed_shared_schema:
  assumes "init_seed e lic Shared s = (s', r)"
    and "\<not> prefix ''sqlite:///'' (engine_uri s)" and "n \<notin> set (search_path s)"
  shows "schemas s' n = schemas s n"
proof (cases "find (holds_tables s) (search_path s)")
  case None
  with assms show ?thesis
    by (auto simp: init_seed_def Let_def connect_def sess_store_def sess_target_def
          db_session_target_def)
next
  case (Some m)
  then have "m \<noteq> n" using assms(3) find_in_set by fastforce
  with assms Some show ?thesis
    by (auto simp: init_seed_def Let_def connect_def sess_store_def sess_target_def
          db_session_target_def read_target_def write_target_def sess_commit_def
          commit_session_def
        split: option.splits if_splits sum.splits)
qed

lemma initialize_postgres_schema:
  assumes pg: "postgres_strategy s" and np: "n \<notin> set (search_path s)"
  shows "schemas (fst (initialize_tenant_data e k lic s)) n = schemas s n"
proof -
  let ?s0 = "s\<lparr>calls := calls s @ [Call_initialize_tenant_data k]\<rparr>"
  from pg have p0: "is_postgres ?s0" and e0: "\<not> prefix ''sqlite:///'' (engine_uri ?s0)"
    by (simp_all add: postgres_strategy_def is_postgres_def)
  have sh: "h = Shared" if "init_open e k ?s0 = (?s0, Inr h)" for h
    using that p0 by (auto simp: init_open_def split: if_splits)
  from np have np0: "n \<notin> set (search_path ?s0)" by simp
  show ?thesis
  proof (cases rule: initialize_tenant_data_cases [where e = e and k = k and s = s and lic = lic])
    case (open_failed x)
    then show ?thesis by (simp add: init_handler_frame)
  next
    case (seed_failed h x)
    then show ?thesis by (simp add: init_handler_frame connect_frame)
  next
    case (release_failed h s2 s3 x)
    from sh [OF release_failed(1)] release_failed(2)
    have "schemas s2 n = schemas ?s0 n"
      using init_seed_shared_schema [OF _ e0 np0] by simp
    with init_release_frame [OF release_failed(3)] release_failed(4) show ?thesis
      by (simp add: init_handler_frame)
  next
    case (ok h s2 s3)
    from sh [OF ok(1)] ok(2)
    have "schemas s2 n = schemas ?s0 n"
      using init_seed_shared_schema [OF _ e0 np0] by simp
    with init_release_frame [OF ok(3)] ok(4) show ?thesis by simp
  qed
qed

lemma create_postgres_fresh:
  assumes nf: "\<forall>l. \<not> raises e l" and pg: "postgres_strategy s"
    and fresh: "schemas s (schema_name k) = None"
  shows "snd (create_tenant_database e k s)"
    and "schemas (fst (create_tenant_database e k s)) (schema_name k) = Some (create_all no_tables)"
    and "search_path (fst (create_tenant_database e k s)) = search_path s"
    and "postgres_strategy (fst (create_tenant_database e k s))"
  using nf pg fresh
  by (simp_all add: create_tenant_database_def Let_def postgres_strategy_def is_postgres_def)

text \<open>
  C3 does not hold of the code under PostgreSQL. \<open>initialize_tenant_data\<close> issues its
  \<open>SET search_path\<close> inside a \<open>with app.app_context()\<close> block that ends before the first
  seeding statement, so the seed rows go wherever the session of the caller points,
  and never to the tenant's schema unless the caller's \<open>search_path\<close> names it already.
  The login sequence calls with \<open>search_path\<close> on \<open>public\<close>: for a tenant without a
  schema, \<open>create_tenant_database\<close> and \<open>initialize_tenant_data\<close> leave the schema with
  its tables and not one role, branch, user or account, where the claim expects three
  roles, a branch and five accounts.
\<close>

theorem provisioning_postgres_unseeded:
  assumes pg: "postgres_strategy s" and np: "schema_name k \<notin> set (search_path s)"
  shows "schemas (fst (initialize_tenant_data e k lic s)) (schema_name k)
           = schemas s (schema_name k)
       \<and> (schemas s (schema_name k) = None \<and> (\<forall>l. \<not> raises e l) \<longrightarrow>
            snd (create_tenant_database e k s)
          \<and> schemas (provision_and_seed e k lic s) (schema_name k)
              = Some \<lparr>has_tables = True, roles = [], branches = [], users = [], accounts = []\<rparr>)"
proof (intro conjI impI)
  show "schemas (fst (initialize_tenant_data e k lic s)) (schema_name k)
           = schemas s (schema_name k)"
    using initialize_postgres_schema [OF pg np] .
next
  assume a: "schemas s (schema_name k) = None \<and> (\<forall>l. \<not> raises e l)"
  then have nf: "\<forall>l. \<not> raises e l" and fresh: "schemas s (schema_name k) = None" by simp_all
  note c = create_postgres_fresh [OF nf pg fresh]
  show "snd (create_tenant_database e k s)" by (rule c(1))
  have np1: "schema_name k \<notin> set (search_path (fst (create_tenant_database e k s)))"
    using np c(3) by simp
  have "provision_and_seed e k lic s
          = fst (initialize_tenant_data e k lic (fst (create_tenant_database e k s)))"
    by (simp add: provision_and_seed_def split_beta)
  then show "schemas (provision_and_seed e k lic s) (schema_name k)
              = Some \<lparr>has_tables = True, roles = [], branches = [], users = [], accounts = []\<rparr>"
    using initialize_postgres_schema [OF c(4) np1, of e k lic] c(2)
    by (simp add: create_all_def no_tables_def)
qed

theorem provisioning_postgres_unseeded_witness:
  "postgres_strategy demo_pg
   \<and> search_path demo_pg = [''public'']
   \<and> schemas demo_pg ''tenant_lic_0001'' = None
   \<and> snd (create_tenant_database demo_env ''LIC-0001'' demo_pg)
   \<and> \<not> snd (initialize_tenant_data demo_env ''LIC-0001'' demo_license
              (fst (create_tenant_database demo_env ''LIC-0001'' demo_pg)))
   \<and> schemas (provision_and_seed demo_env ''LIC-0001'' demo_license demo_pg) ''tenant_lic_0001''
       = Some \<lparr>has_tables = True, roles = [], branches = [], users = [], accounts = []\<rparr>
   \<and> snd (authenticate_with_license demo_env ''admin'' ''secret'' ''LIC-0001'' demo_pg)
       = Inr (False, Msg_init_failed, None)"
proof -
  have pg: "postgres_strategy demo_pg" by code_simp
  have sp: "search_path demo_pg = [''public'']" by code_simp
  have n: "schema_name ''LIC-0001'' = ''tenant_lic_0001''" by code_simp
  have np: "schema_name ''LIC-0001'' \<notin> set (search_path demo_pg)"
    by (simp add: sp n)
  have fr: "schemas demo_pg ''tenant_lic_0001'' = None" by code_simp
  have nf: "\<forall>l. \<not> raises demo_env l" by (simp add: demo_env_def)
  have i: "\<not> snd (initialize_tenant_data demo_env ''LIC-0001'' demo_license
              (fst (create_tenant_database demo_env ''LIC-0001'' demo_pg)))"
    by code_simp
  have l: "snd (authenticate_with_license demo_env ''admin'' ''secret'' ''LIC-0001'' demo_pg)
       = Inr (False, Msg_init_failed, None)"
    by code_simp
  show ?thesis
    using provisioning_postgres_unseeded [OF pg np, of demo_env demo_license] pg sp fr nf i l n
    by simp
qed

end
